theory Spec2Isabelle
  imports Main
begin

text \<open>
  The batch pipeline of the GeoServer and PostgreSQL manager: the name normalizer of the
  data scanner, the column renaming of the vector import, the table rename of the database
  manager and of the main window, the REST calls of the GeoServer publisher and the loop
  of the batch processor. Calls to the database, to the HTTP session and to the callbacks
  are recorded in a trace of events, and their answers come from an environment.
\<close>

section \<open>Python strings\<close>

text \<open>
  A Python \<open>str\<close> is a sequence of Unicode code points. It is modelled as a list of
  natural numbers, one per code point, so that file and column names outside ASCII are
  covered. \<open>str\<close> turns an ASCII literal into such a list.
\<close>

type_synonym pystr = "nat list"

definition str :: "string \<Rightarrow> pystr" where
  "str s = map of_char s"

definition underscore :: nat where
  "underscore = 95"

definition is_upper :: "nat \<Rightarrow> bool" where
  "is_upper c = (65 \<le> c \<and> c \<le> 90)"

definition is_alnum :: "nat \<Rightarrow> bool" where
  "is_alnum c = ((97 \<le> c \<and> c \<le> 122) \<or> (48 \<le> c \<and> c \<le> 57))"

definition is_digit :: "nat \<Rightarrow> bool" where
  "is_digit c = (48 \<le> c \<and> c \<le> 57)"

text \<open>The character class \<open>[a-z0-9_]\<close> of \<open>normalize_name\<close>.\<close>

definition name_char :: "nat \<Rightarrow> bool" where
  "name_char c = (is_alnum c \<or> c = underscore)"

text \<open>The character class \<open>[a-zA-Z0-9_]\<close> of \<open>import_vector_file\<close> and of the rename check.\<close>

definition col_char :: "nat \<Rightarrow> bool" where
  "col_char c = (name_char c \<or> is_upper c)"

text \<open>
  \<open>str.lower()\<close>. The letters A to Z go to a to z. Two code points outside ASCII have a
  lower case that contains an ASCII letter: U+0130 becomes \<open>i\<close> followed by U+0307, and
  U+212A (the Kelvin sign) becomes \<open>k\<close>. Every other code point outside ASCII is mapped
  by Python to one code point outside ASCII; the model leaves it where it is, since the
  code below only tests the result against ASCII classes.
\<close>

definition lower_cp :: "nat \<Rightarrow> pystr" where
  "lower_cp c =
     (if is_upper c then [c + 32]
      else if c = 304 then [105, 775]
      else if c = 8490 then [107]
      else [c])"

definition lower :: "pystr \<Rightarrow> pystr" where
  "lower s = concat (map lower_cp s)"

definition startswith :: "pystr \<Rightarrow> pystr \<Rightarrow> bool" where
  "startswith s p = (take (length p) s = p)"

section \<open>ImprovedDataScanner.normalize_name\<close>

text \<open>\<open>re.sub(r'[^a-z0-9_]', '_', s)\<close>: every character outside the class becomes \<open>_\<close>.\<close>

definition sub_invalid :: "pystr \<Rightarrow> pystr" where
  "sub_invalid s = map (\<lambda>c. if name_char c then c else underscore) s"

text \<open>\<open>re.sub(r'_+', '_', s)\<close>: every maximal run of underscores becomes one underscore.\<close>

fun sub_underscores :: "pystr \<Rightarrow> pystr" where
  "sub_underscores [] = []"
| "sub_underscores [c] = [c]"
| "sub_underscores (c # d # cs) =
     (if c = underscore \<and> d = underscore then sub_underscores (d # cs)
      else c # sub_underscores (d # cs))"

text \<open>\<open>s.strip('_')\<close>: the leading and the trailing underscores are removed.\<close>

definition strip_underscores :: "pystr \<Rightarrow> pystr" where
  "strip_underscores s =
     rev (dropWhile (\<lambda>c. c = underscore) (rev (dropWhile (\<lambda>c. c = underscore) s)))"

text \<open>The three rewriting steps of \<open>normalize_name\<close>, before the test for emptiness.\<close>

definition cleaned :: "pystr \<Rightarrow> pystr" where
  "cleaned name = strip_underscores (sub_underscores (sub_invalid (lower name)))"

definition normalize_name :: "pystr \<Rightarrow> pystr" where
  "normalize_name name =
     (let normalized = cleaned name
      in if normalized = [] then str ''unnamed'' else normalized)"

text \<open>
  A string matches \<open>^[a-z0-9_]+$\<close> when it is not empty and all its characters are in
  the class (no output of the normalizer holds a newline, so the end anchor is exact).
\<close>

definition matches_name_pattern :: "pystr \<Rightarrow> bool" where
  "matches_name_pattern s = (s \<noteq> [] \<and> list_all name_char s)"

text \<open>No two underscores stand next to each other.\<close>

definition no_double_underscore :: "pystr \<Rightarrow> bool" where
  "no_double_underscore s = successively (\<lambda>a b. \<not> (a = underscore \<and> b = underscore)) s"

text \<open>The string neither starts nor ends with an underscore.\<close>

definition no_edge_underscore :: "pystr \<Rightarrow> bool" where
  "no_edge_underscore s = (s = [] \<or> (hd s \<noteq> underscore \<and> last s \<noteq> underscore))"

section \<open>Column names in ImprovedPostgreSQLManager.import_vector_file\<close>

text \<open>\<open>clean_col = re.sub(r'[^a-zA-Z0-9_]', '_', col.lower())\<close>.\<close>

definition clean_col :: "pystr \<Rightarrow> pystr" where
  "clean_col col = map (\<lambda>c. if col_char c then c else underscore) (lower col)"

text \<open>
  The dictionary \<open>column_mapping\<close>, built over \<open>gdf.columns\<close> for every column other
  than \<open>geom\<close>, as an association list in the order of the columns.
\<close>

definition column_mapping :: "pystr list \<Rightarrow> (pystr \<times> pystr) list" where
  "column_mapping columns =
     map (\<lambda>col. (col, clean_col col)) (filter (\<lambda>col. col \<noteq> str ''geom'') columns)"

text \<open>\<open>gdf.rename(columns=column_mapping)\<close>: a column in the mapping takes its new name.\<close>

definition rename_columns :: "(pystr \<times> pystr) list \<Rightarrow> pystr list \<Rightarrow> pystr list" where
  "rename_columns mapping columns =
     map (\<lambda>col. case map_of mapping col of Some new \<Rightarrow> new | None \<Rightarrow> col) columns"

section \<open>Values, messages and the trace of effects\<close>

text \<open>\<open>str(n)\<close> for an integer, as the f-strings of the source print it.\<close>

fun str_nat :: "nat \<Rightarrow> pystr" where
  "str_nat n = (if n < 10 then [48 + n] else str_nat (n div 10) @ [48 + n mod 10])"

declare str_nat.simps [simp del]

definition str_int :: "int \<Rightarrow> pystr" where
  "str_int i = (if i < 0 then 45 # str_nat (nat (- i)) else str_nat (nat i))"

text \<open>A raised exception, with the text that \<open>str(e)\<close> gives.\<close>

datatype exn = Exception pystr

fun exn_str :: "exn \<Rightarrow> pystr" where
  "exn_str (Exception m) = m"

text \<open>A value that is either \<open>None\<close> or a string.\<close>

datatype pyval = PyNone | PyStr pystr

text \<open>The response of the HTTP session: \<open>response.status_code\<close> and \<open>response.text\<close>.\<close>

record response =
  status_code :: int
  response_text :: pystr

text \<open>The connection parameters \<open>pg_params\<close> of the database.\<close>

record pg_params =
  pg_host :: pystr
  pg_port :: int
  pg_database :: pystr
  pg_user :: pystr
  pg_password :: pystr

text \<open>
  The JSON bodies that the publisher posts: a workspace (name, namespaceURI), a data store
  (name and connection parameters; the pooling parameters are constants of the source)
  and a feature type (name, nativeName, title, srs).
\<close>

datatype payload =
    WorkspaceJson pystr pystr
  | DataStoreJson pystr pg_params
  | FeatureTypeJson pystr pystr pystr pyval

text \<open>
  What \<open>process_data_items\<close> writes to the log for each item, with the name of the
  item: the line "processed", the error line "publish failed", the error line "import
  failed", or the call \<open>log_manager.log_exception\<close> with the exception, which writes
  three error lines (operation, text of the exception, stack).
\<close>

datatype log_record =
    ProcessOk pystr
  | PublishFailure pystr
  | ImportFailure pystr
  | ItemException pystr exn

text \<open>
  The effects of the code on its collaborators, in the order in which they happen: calls
  of the database gateway and driver, requests of the HTTP session, calls of the two
  callbacks, message boxes of the main window and the log records above. The other
  logger calls of the source carry nothing the model reads and are left out; logging
  is taken to return normally.
\<close>

datatype event =
    PgConnect
  | SessionGet pystr
  | SessionPost pystr payload
  | ImportVectorFile pystr pystr pystr
  | CursorExecute pystr
  | ConnectionCommit
  | ConnectionRollback
  | ProgressCallback int
  | StatusCallback pystr
  | WarningBox
  | InformationBox
  | CriticalBox
  | Logged log_record

text \<open>
  The collaborators. Each answers a call as a function of the events so far, so that a
  server may answer the same request differently the second time.
  \<^item> \<open>pg_connect\<close> is \<open>ImprovedPostgreSQLManager.connect\<close> and \<open>pg_import_vector_file\<close>
    is \<open>ImprovedPostgreSQLManager.import_vector_file\<close> (file path, table name, target
    CRS): both run inside their own \<open>try\<close> and return a pair (success, message).
  \<^item> \<open>session_get\<close> and \<open>session_post\<close> are the requests session, which returns a
    response or raises.
  \<^item> \<open>cursor_execute\<close>, \<open>connection_commit\<close> and \<open>connection_rollback\<close> are the
    database driver; \<open>Some e\<close> is a raised exception.
  \<^item> \<open>percent i total\<close> stands for the floating point expression
    \<open>int((i / total_items) * 100)\<close>, which is not computed here.
\<close>

record env =
  pg_connect :: "event list \<Rightarrow> bool \<times> pystr"
  pg_import_vector_file :: "event list \<Rightarrow> pystr \<Rightarrow> pystr \<Rightarrow> pystr \<Rightarrow> bool \<times> pystr"
  session_get :: "event list \<Rightarrow> pystr \<Rightarrow> exn + response"
  session_post :: "event list \<Rightarrow> pystr \<Rightarrow> payload \<Rightarrow> exn + response"
  cursor_execute :: "event list \<Rightarrow> pystr \<Rightarrow> exn option"
  connection_commit :: "event list \<Rightarrow> exn option"
  connection_rollback :: "event list \<Rightarrow> exn option"
  percent :: "nat \<Rightarrow> nat \<Rightarrow> int"

text \<open>
  The Chinese texts of the source, as code points. In the order of the definitions:
  the three data types (vector data, raster data, spatial table), "connected",
  "created", "workspace exists", "data store exists", "creation failed: ", "published",
  "publishing failed: ", "raster import is not implemented, use vector data",
  "renamed", "database connection failed: ", "GeoServer connection failed: ",
  "workspace creation failed: ", "data store creation failed: ", "processing: ",
  "finished: succeeded ", ", failed ", and the counter word that ends the result message.
\<close>

definition VECTOR_DATA :: pystr where
  "VECTOR_DATA = [30690, 37327, 25968, 25454]"

definition RASTER_DATA :: pystr where
  "RASTER_DATA = [26629, 26684, 25968, 25454]"

definition SPATIAL_TABLE :: pystr where
  "SPATIAL_TABLE = [31354, 38388, 34920]"

definition msg_connected :: pystr where
  "msg_connected = [36830, 25509, 25104, 21151]"

definition msg_created :: pystr where
  "msg_created = [21019, 24314, 25104, 21151]"

definition msg_workspace_exists :: pystr where
  "msg_workspace_exists = [24037, 20316, 31354, 38388, 24050, 23384, 22312]"

definition msg_datastore_exists :: pystr where
  "msg_datastore_exists = [25968, 25454, 23384, 20648, 24050, 23384, 22312]"

definition msg_create_failed :: pystr where
  "msg_create_failed = [21019, 24314, 22833, 36133, 58, 32]"

definition msg_published :: pystr where
  "msg_published = [21457, 24067, 25104, 21151]"

definition msg_publish_failed :: pystr where
  "msg_publish_failed = [21457, 24067, 22833, 36133, 58, 32]"

definition msg_raster_unsupported :: pystr where
  "msg_raster_unsupported =
     [26629, 26684, 25968, 25454, 23548, 20837, 21151, 33021, 26242, 26410, 23454, 29616,
      65292, 35831, 20351, 29992, 30690, 37327, 25968, 25454]"

definition msg_renamed :: pystr where
  "msg_renamed = [37325, 21629, 21517, 25104, 21151]"

definition msg_db_failed :: pystr where
  "msg_db_failed = [25968, 25454, 24211, 36830, 25509, 22833, 36133, 58, 32]"

definition msg_geoserver_failed :: pystr where
  "msg_geoserver_failed =
     [71, 101, 111, 83, 101, 114, 118, 101, 114, 36830, 25509, 22833, 36133, 58, 32]"

definition msg_workspace_failed :: pystr where
  "msg_workspace_failed = [24037, 20316, 31354, 38388, 21019, 24314, 22833, 36133, 58, 32]"

definition msg_datastore_failed :: pystr where
  "msg_datastore_failed = [25968, 25454, 23384, 20648, 21019, 24314, 22833, 36133, 58, 32]"

definition msg_processing :: pystr where
  "msg_processing = [27491, 22312, 22788, 29702, 58, 32]"

definition msg_done :: pystr where
  "msg_done = [22788, 29702, 23436, 25104, 58, 32, 25104, 21151, 32]"

definition msg_failed_part :: pystr where
  "msg_failed_part = [44, 32, 22833, 36133, 32]"

definition msg_unit :: pystr where
  "msg_unit = [32, 20010]"

section \<open>ImprovedPostgreSQLManager: rename_table and import_raster_file\<close>

text \<open>
  The statement \<open>ALTER TABLE "schema"."old_name" RENAME TO "new_name"\<close> that
  \<open>rename_table\<close> formats; 34 is the double quote.
\<close>

definition rename_sql :: "pystr \<Rightarrow> pystr \<Rightarrow> pystr \<Rightarrow> pystr" where
  "rename_sql schema old_name new_name =
     str ''ALTER TABLE '' @ [34] @ schema @ [34] @ str ''.'' @ [34] @ old_name @ [34]
       @ str '' RENAME TO '' @ [34] @ new_name @ [34]"

text \<open>
  The \<open>except\<close> branch of \<open>rename_table\<close>: the transaction is rolled back and the pair
  (False, str(e)) is returned; an exception of the rollback itself leaves the method.
\<close>

definition rename_failed :: "env \<Rightarrow> exn \<Rightarrow> event list \<Rightarrow> (exn + bool \<times> pystr) \<times> event list" where
  "rename_failed env e log =
     (case connection_rollback env log of
        Some e' \<Rightarrow> (Inl e', log @ [ConnectionRollback])
      | None \<Rightarrow> (Inr (False, exn_str e), log @ [ConnectionRollback]))"

text \<open>
  \<open>rename_table(old_name, new_name, schema)\<close>: execute the statement, commit, return
  (True, "renamed"). Opening and closing the cursor are taken to return normally.
\<close>

definition rename_table ::
  "env \<Rightarrow> pystr \<Rightarrow> pystr \<Rightarrow> pystr \<Rightarrow> event list \<Rightarrow> (exn + bool \<times> pystr) \<times> event list" where
  "rename_table env old_name new_name schema log =
     (let sql = rename_sql schema old_name new_name;
          log1 = log @ [CursorExecute sql]
      in case cursor_execute env log sql of
           Some e \<Rightarrow> rename_failed env e log1
         | None \<Rightarrow>
             (case connection_commit env log1 of
                Some e \<Rightarrow> rename_failed env e (log1 @ [ConnectionCommit])
              | None \<Rightarrow> (Inr (True, msg_renamed), log1 @ [ConnectionCommit])))"

text \<open>\<open>import_raster_file\<close> is not implemented in the source: it returns a failure.\<close>

definition import_raster_file :: "pystr \<Rightarrow> pystr \<Rightarrow> pystr \<Rightarrow> bool \<times> pystr" where
  "import_raster_file file_path table_name target_crs = (False, msg_raster_unsupported)"

section \<open>ImprovedMainWindow.rename_table\<close>

definition is_letter :: "nat \<Rightarrow> bool" where
  "is_letter c = (is_upper c \<or> (97 \<le> c \<and> c \<le> 122))"

text \<open>
  \<open>re.match(r'^[a-zA-Z][a-zA-Z0-9_]*$', new_name)\<close>: a letter, then letters, digits and
  underscores up to the end of the string. In Python, \<open>$\<close> also matches just before a
  newline (code point 10) that ends the string.
\<close>

definition valid_identifier :: "pystr \<Rightarrow> bool" where
  "valid_identifier s =
     (case s of
        [] \<Rightarrow> False
      | c # cs \<Rightarrow>
          is_letter c \<and> (let rest = dropWhile col_char cs in rest = [] \<or> rest = [10]))"

text \<open>
  The rename dialog: rejected, or accepted with the text of \<open>get_new_name()\<close>.
\<close>

datatype dialog_result = Rejected | Accepted pystr

text \<open>
  The part of \<open>ImprovedMainWindow.rename_table\<close> that follows the selection of a table
  (\<open>current_name\<close> in \<open>schema_name\<close>). The result is the trace: the method returns
  nothing. Any exception is caught by the \<open>except\<close> of the method, which shows a critical
  box. The refresh of the tree after a successful rename is left out.
\<close>

definition main_window_rename_table ::
  "env \<Rightarrow> pystr \<Rightarrow> pystr \<Rightarrow> dialog_result \<Rightarrow> event list \<Rightarrow> event list" where
  "main_window_rename_table env current_name schema_name dialog log =
     (case dialog of
        Rejected \<Rightarrow> log
      | Accepted new_name \<Rightarrow>
          if new_name = [] \<or> new_name = current_name then log
          else if \<not> valid_identifier new_name then log @ [WarningBox]
          else
            (let log1 = log @ [PgConnect]
             in if fst (pg_connect env log) then
                  (case rename_table env current_name new_name schema_name log1 of
                     (Inl e, log2) \<Rightarrow> log2 @ [CriticalBox]
                   | (Inr (success, message), log2) \<Rightarrow>
                       if success then log2 @ [InformationBox] else log2 @ [CriticalBox])
                else log1 @ [CriticalBox]))"

text \<open>The events that reach the database: connecting, executing, committing, rolling back.\<close>

fun is_db_event :: "event \<Rightarrow> bool" where
  "is_db_event PgConnect = True"
| "is_db_event (CursorExecute sql) = True"
| "is_db_event ConnectionCommit = True"
| "is_db_event ConnectionRollback = True"
| "is_db_event ev = False"

section \<open>ImprovedGeoServerPublisher\<close>

text \<open>\<open>test_connection\<close>: success if and only if the version resource answers 200.\<close>

definition test_connection :: "env \<Rightarrow> pystr \<Rightarrow> event list \<Rightarrow> (bool \<times> pystr) \<times> event list" where
  "test_connection env base_url log =
     (let url = base_url @ str ''/rest/about/version''
      in (case session_get env log url of
            Inl e \<Rightarrow> (False, exn_str e)
          | Inr r \<Rightarrow>
              if status_code r = 200 then (True, msg_connected)
              else (False, str ''HTTP '' @ str_int (status_code r)),
          log @ [SessionGet url]))"

definition workspaces_url :: "pystr \<Rightarrow> pystr" where
  "workspaces_url base_url = base_url @ str ''/rest/workspaces''"

definition workspace_json :: "pystr \<Rightarrow> pystr option \<Rightarrow> payload" where
  "workspace_json workspace_name namespace_uri =
     WorkspaceJson workspace_name
       (case namespace_uri of
          None \<Rightarrow> str ''http://www.example.com/'' @ workspace_name
        | Some uri \<Rightarrow> uri)"

text \<open>\<open>create_workspace(workspace_name, namespace_uri=None)\<close>.\<close>

definition create_workspace ::
  "env \<Rightarrow> pystr \<Rightarrow> pystr \<Rightarrow> pystr option \<Rightarrow> event list \<Rightarrow> (bool \<times> pystr) \<times> event list" where
  "create_workspace env base_url workspace_name namespace_uri log =
     (let workspace_data = workspace_json workspace_name namespace_uri;
          url = workspaces_url base_url
      in (case session_post env log url workspace_data of
            Inl e \<Rightarrow> (False, exn_str e)
          | Inr r \<Rightarrow>
              if status_code r \<in> {200, 201} then (True, msg_created)
              else if status_code r = 409 then (True, msg_workspace_exists)
              else (False, msg_create_failed @ str_int (status_code r)),
          log @ [SessionPost url workspace_data]))"

definition datastores_url :: "pystr \<Rightarrow> pystr \<Rightarrow> pystr" where
  "datastores_url base_url workspace =
     base_url @ str ''/rest/workspaces/'' @ workspace @ str ''/datastores''"

text \<open>\<open>create_postgresql_datastore(workspace, datastore_name, pg_params)\<close>.\<close>

definition create_postgresql_datastore ::
  "env \<Rightarrow> pystr \<Rightarrow> pystr \<Rightarrow> pystr \<Rightarrow> pg_params \<Rightarrow> event list \<Rightarrow> (bool \<times> pystr) \<times> event list" where
  "create_postgresql_datastore env base_url workspace datastore_name params log =
     (let datastore_data = DataStoreJson datastore_name params;
          url = datastores_url base_url workspace
      in (case session_post env log url datastore_data of
            Inl e \<Rightarrow> (False, exn_str e)
          | Inr r \<Rightarrow>
              if status_code r \<in> {200, 201} then (True, msg_created)
              else if status_code r = 409 then (True, msg_datastore_exists)
              else (False, msg_create_failed @ str_int (status_code r)),
          log @ [SessionPost url datastore_data]))"

definition featuretypes_url :: "pystr \<Rightarrow> pystr \<Rightarrow> pystr \<Rightarrow> pystr" where
  "featuretypes_url base_url workspace datastore =
     base_url @ str ''/rest/workspaces/'' @ workspace @ str ''/datastores/'' @ datastore
       @ str ''/featuretypes''"

text \<open>
  The feature type that \<open>publish_layer_from_table\<close> posts: \<open>layer_name\<close> defaults to
  the table name and \<open>title\<close> to the layer name.
\<close>

definition featuretype_json :: "pystr \<Rightarrow> pystr option \<Rightarrow> pystr option \<Rightarrow> pyval \<Rightarrow> payload" where
  "featuretype_json table_name layer_name title srs_value =
     (let layer_name' = (case layer_name of None \<Rightarrow> table_name | Some l \<Rightarrow> l);
          title' = (case title of None \<Rightarrow> layer_name' | Some t \<Rightarrow> t)
      in FeatureTypeJson layer_name' table_name title' srs_value)"

text \<open>
  \<open>publish_layer_from_table(workspace, datastore, table_name, layer_name, title, srs)\<close>.
\<close>

definition publish_layer_from_table ::
  "env \<Rightarrow> pystr \<Rightarrow> pystr \<Rightarrow> pystr \<Rightarrow> pystr \<Rightarrow> pystr option \<Rightarrow> pystr option \<Rightarrow> pyval
     \<Rightarrow> event list \<Rightarrow> (bool \<times> pystr) \<times> event list" where
  "publish_layer_from_table env base_url workspace datastore table_name layer_name title
       srs_value log =
     (let featuretype_data = featuretype_json table_name layer_name title srs_value;
          url = featuretypes_url base_url workspace datastore
      in (case session_post env log url featuretype_data of
            Inl e \<Rightarrow> (False, exn_str e)
          | Inr r \<Rightarrow>
              if status_code r \<in> {200, 201} then (True, msg_published)
              else (False, msg_publish_failed @ str_int (status_code r)),
          log @ [SessionPost url featuretype_data]))"

section \<open>Data items\<close>

text \<open>
  A data item is a dictionary. The batch processor reads four of its keys: \<open>path\<close>,
  \<open>new_name\<close> and \<open>type\<close> with \<open>item[...]\<close>, which every item built by the scanners
  holds, and \<open>srs\<close> with \<open>item.get('srs', 'EPSG:4326')\<close>, where \<open>None\<close> in the model
  stands for an absent key and \<open>Some PyNone\<close> for the value \<open>None\<close> that the scanner
  stores when no CRS was detected.
\<close>

record item =
  path :: pystr
  new_name :: pystr
  item_type :: pystr
  srs :: "pyval option"

text \<open>
  The item that \<open>scan_folder\<close> builds for a file: \<open>stem\<close> is \<open>Path(file).stem\<close>,
  \<open>file_type\<close> is \<open>file_info['type']\<close> and \<open>crs\<close> is \<open>file_info.get('crs', 'EPSG:4326')\<close>.
\<close>

definition scan_data_item :: "pystr \<Rightarrow> pystr \<Rightarrow> pystr \<Rightarrow> pyval \<Rightarrow> item" where
  "scan_data_item file_path stem file_type crs =
     \<lparr>path = file_path, new_name = normalize_name stem, item_type = file_type,
      srs = Some crs\<rparr>"

definition item_get_srs :: "item \<Rightarrow> pyval" where
  "item_get_srs it = (case srs it of None \<Rightarrow> PyStr (str ''EPSG:4326'') | Some v \<Rightarrow> v)"

section \<open>ImprovedBatchProcessor\<close>

text \<open>The processor holds the base URL of the publisher and the database parameters.\<close>

record batch_processor =
  base_url :: pystr
  params :: pg_params

text \<open>
  \<open>target_crs = srid_text if srid_text.startswith('EPSG:') else 'EPSG:4326'\<close>.
\<close>

definition import_target_crs :: "pystr \<Rightarrow> pystr" where
  "import_target_crs srid_text =
     (if startswith srid_text (str ''EPSG:'') then srid_text else str ''EPSG:4326'')"

text \<open>
  \<open>_import_single_item\<close>. When \<open>srs\<close> holds \<open>None\<close>, \<open>srid_text.startswith\<close> raises
  and the \<open>except\<close> of the method returns False.
\<close>

definition import_single_item :: "env \<Rightarrow> item \<Rightarrow> event list \<Rightarrow> bool \<times> event list" where
  "import_single_item env it log =
     (let file_path = path it; table_name = new_name it; data_type = item_type it
      in case item_get_srs it of
           PyNone \<Rightarrow> (False, log)
         | PyStr srid_text \<Rightarrow>
             (let target_crs = import_target_crs srid_text
              in if data_type = VECTOR_DATA then
                   (fst (pg_import_vector_file env log file_path table_name target_crs),
                    log @ [ImportVectorFile file_path table_name target_crs])
                 else if data_type = RASTER_DATA then
                   (fst (import_raster_file file_path table_name target_crs), log)
                 else if data_type = SPATIAL_TABLE then (True, log)
                 else (False, log)))"

text \<open>\<open>_publish_single_item\<close>.\<close>

definition publish_single_item ::
  "env \<Rightarrow> batch_processor \<Rightarrow> item \<Rightarrow> pystr \<Rightarrow> pystr \<Rightarrow> event list \<Rightarrow> bool \<times> event list" where
  "publish_single_item env self it workspace datastore_name log =
     (let table_name = new_name it; layer_name = new_name it; srid_text = item_get_srs it;
          r = publish_layer_from_table env (base_url self) workspace datastore_name table_name
                (Some layer_name) None srid_text log
      in (fst (fst r), snd r))"

text \<open>
  The two optional callbacks. A callback sees the events so far and its argument, and
  returns normally (\<open>None\<close>) or raises.
\<close>

type_synonym progress_callback = "(event list \<Rightarrow> int \<Rightarrow> exn option) option"

type_synonym status_callback = "(event list \<Rightarrow> pystr \<Rightarrow> exn option) option"

definition call_progress :: "progress_callback \<Rightarrow> int \<Rightarrow> event list \<Rightarrow> exn option \<times> event list" where
  "call_progress progress_cb v log =
     (case progress_cb of
        None \<Rightarrow> (None, log)
      | Some f \<Rightarrow> (f log v, log @ [ProgressCallback v]))"

definition call_status :: "status_callback \<Rightarrow> pystr \<Rightarrow> event list \<Rightarrow> exn option \<times> event list" where
  "call_status status_cb m log =
     (case status_cb of
        None \<Rightarrow> (None, log)
      | Some f \<Rightarrow> (f log m, log @ [StatusCallback m]))"

text \<open>The two callback calls that open the body of the loop.\<close>

definition announce ::
  "env \<Rightarrow> progress_callback \<Rightarrow> status_callback \<Rightarrow> nat \<Rightarrow> nat \<Rightarrow> item \<Rightarrow> event list
     \<Rightarrow> exn option \<times> event list" where
  "announce env progress_cb status_cb total_items i it log =
     (case call_progress progress_cb (percent env i total_items) log of
        (Some e, log1) \<Rightarrow> (Some e, log1)
      | (None, log1) \<Rightarrow> call_status status_cb (msg_processing @ new_name it) log1)"

text \<open>
  One turn of the loop of \<open>process_data_items\<close> on the state (success_count, error_count,
  trace): the \<open>try\<close> with its \<open>except\<close>, which counts the item as failed.
\<close>

definition process_item ::
  "env \<Rightarrow> batch_processor \<Rightarrow> progress_callback \<Rightarrow> status_callback \<Rightarrow> pystr \<Rightarrow> pystr \<Rightarrow> nat
     \<Rightarrow> nat \<Rightarrow> item \<Rightarrow> nat \<times> nat \<times> event list \<Rightarrow> nat \<times> nat \<times> event list" where
  "process_item env self progress_cb status_cb workspace datastore_name total_items i it st =
     (case st of (success_count, error_count, log) \<Rightarrow>
        (case announce env progress_cb status_cb total_items i it log of
           (Some e, log1) \<Rightarrow>
             (success_count, error_count + 1, log1 @ [Logged (ItemException (new_name it) e)])
         | (None, log1) \<Rightarrow>
             (case import_single_item env it log1 of (import_success, log2) \<Rightarrow>
                if import_success then
                  (case publish_single_item env self it workspace datastore_name log2 of
                     (publish_success, log3) \<Rightarrow>
                       if publish_success then
                         (success_count + 1, error_count, log3 @ [Logged (ProcessOk (new_name it))])
                       else
                         (success_count, error_count + 1,
                          log3 @ [Logged (PublishFailure (new_name it))]))
                else
                  (success_count, error_count + 1, log2 @ [Logged (ImportFailure (new_name it))]))))"

text \<open>The loop \<open>for i, item in enumerate(data_items)\<close>, from index \<open>i\<close> on.\<close>

fun process_loop ::
  "env \<Rightarrow> batch_processor \<Rightarrow> progress_callback \<Rightarrow> status_callback \<Rightarrow> pystr \<Rightarrow> pystr \<Rightarrow> nat
     \<Rightarrow> nat \<Rightarrow> item list \<Rightarrow> nat \<times> nat \<times> event list \<Rightarrow> nat \<times> nat \<times> event list" where
  "process_loop env self progress_cb status_cb workspace datastore_name total_items i [] st = st"
| "process_loop env self progress_cb status_cb workspace datastore_name total_items i (it # its) st =
     process_loop env self progress_cb status_cb workspace datastore_name total_items (Suc i) its
       (process_item env self progress_cb status_cb workspace datastore_name total_items i it st)"

text \<open>
  The four steps before the loop: connect to the database, test the publisher, create the
  workspace, create the data store. \<open>Some r\<close> is the early \<open>return\<close> of a failed step.
\<close>

definition setup_phase ::
  "env \<Rightarrow> batch_processor \<Rightarrow> pystr \<Rightarrow> pystr \<Rightarrow> event list \<Rightarrow> (bool \<times> pystr) option \<times> event list" where
  "setup_phase env self workspace datastore_name log =
     (case pg_connect env log of (success, message) \<Rightarrow>
        let log1 = log @ [PgConnect]
        in if \<not> success then (Some (False, msg_db_failed @ message), log1)
           else
             (case test_connection env (base_url self) log1 of ((success, message), log2) \<Rightarrow>
                if \<not> success then (Some (False, msg_geoserver_failed @ message), log2)
                else
                  (case create_workspace env (base_url self) workspace None log2 of
                     ((success, message), log3) \<Rightarrow>
                       if \<not> success then (Some (False, msg_workspace_failed @ message), log3)
                       else
                         (case create_postgresql_datastore env (base_url self) workspace
                                 datastore_name (params self) log3 of
                            ((success, message), log4) \<Rightarrow>
                              if \<not> success then
                                (Some (False, msg_datastore_failed @ message), log4)
                              else (None, log4)))))"

text \<open>
  The two callback calls after the loop: progress 100 and the final status line. They
  stand outside the \<open>try\<close> of the loop body.
\<close>

definition completion ::
  "progress_callback \<Rightarrow> status_callback \<Rightarrow> nat \<Rightarrow> nat \<Rightarrow> event list \<Rightarrow> exn option \<times> event list" where
  "completion progress_cb status_cb success_count error_count log =
     (case call_progress progress_cb 100 log of
        (Some e, log1) \<Rightarrow> (Some e, log1)
      | (None, log1) \<Rightarrow>
          call_status status_cb
            (msg_done @ str_nat success_count @ msg_failed_part @ str_nat error_count) log1)"

text \<open>The message of a finished run: "finished: succeeded S/T".\<close>

definition result_message :: "nat \<Rightarrow> nat \<Rightarrow> pystr" where
  "result_message success_count total_items =
     msg_done @ str_nat success_count @ str ''/'' @ str_nat total_items @ msg_unit"

text \<open>
  \<open>process_data_items\<close>. An exception that leaves the loop body's \<open>try\<close> can only come
  from the calls after the loop; the outer \<open>except\<close> returns (False, str(e)).
\<close>

definition process_data_items ::
  "env \<Rightarrow> batch_processor \<Rightarrow> item list \<Rightarrow> pystr \<Rightarrow> pystr \<Rightarrow> progress_callback \<Rightarrow> status_callback
     \<Rightarrow> event list \<Rightarrow> (bool \<times> pystr) \<times> event list" where
  "process_data_items env self data_items workspace datastore_name progress_cb status_cb log =
     (case setup_phase env self workspace datastore_name log of
        (Some r, log1) \<Rightarrow> (r, log1)
      | (None, log1) \<Rightarrow>
          (let total_items = length data_items
           in case process_loop env self progress_cb status_cb workspace datastore_name
                     total_items 0 data_items (0, 0, log1) of
                (success_count, error_count, log2) \<Rightarrow>
                  (case completion progress_cb status_cb success_count error_count log2 of
                     (Some e, log3) \<Rightarrow> ((False, exn_str e), log3)
                   | (None, log3) \<Rightarrow>
                       ((0 < success_count, result_message success_count total_items), log3))))"

text \<open>The names of the items that the trace records as failed, in order.\<close>

fun failed_items :: "event list \<Rightarrow> pystr list" where
  "failed_items [] = []"
| "failed_items (Logged (PublishFailure n) # evs) = n # failed_items evs"
| "failed_items (Logged (ImportFailure n) # evs) = n # failed_items evs"
| "failed_items (Logged (ItemException n e) # evs) = n # failed_items evs"
| "failed_items (ev # evs) = failed_items evs"

text \<open>
  The names of the items for which the trace holds a record of the loop, of any of the
  four kinds, in order.
\<close>

fun recorded_items :: "event list \<Rightarrow> pystr list" where
  "recorded_items [] = []"
| "recorded_items (Logged (ProcessOk n) # evs) = n # recorded_items evs"
| "recorded_items (Logged (PublishFailure n) # evs) = n # recorded_items evs"
| "recorded_items (Logged (ImportFailure n) # evs) = n # recorded_items evs"
| "recorded_items (Logged (ItemException n e) # evs) = n # recorded_items evs"
| "recorded_items (ev # evs) = recorded_items evs"

text \<open>
  The outcome of each item of a run, in the order of the items: the item, and whether its
  turn of the loop, taken from the state that the turns before it left, raised
  success_count.
\<close>

fun item_results ::
  "env \<Rightarrow> batch_processor \<Rightarrow> progress_callback \<Rightarrow> status_callback \<Rightarrow> pystr \<Rightarrow> pystr \<Rightarrow> nat
     \<Rightarrow> nat \<Rightarrow> item list \<Rightarrow> nat \<times> nat \<times> event list \<Rightarrow> (item \<times> bool) list" where
  "item_results env self progress_cb status_cb workspace datastore_name total_items i [] st = []"
| "item_results env self progress_cb status_cb workspace datastore_name total_items i (it # its) st =
     (let st' = process_item env self progress_cb status_cb workspace datastore_name total_items
                  i it st
      in (it, fst st' = Suc (fst st))
           # item_results env self progress_cb status_cb workspace datastore_name total_items
               (Suc i) its st')"

section \<open>A sample environment\<close>

text \<open>
  An environment for the concrete runs below: the database accepts every connection,
  import and statement; the server answers 200 to every GET, 201 to a POST it sees for the
  first time and 409 to a POST that repeats an earlier one. The percentage is taken as the
  floor of 100 i / total; the floating point expression of the code can give one less
  (57 for i = 29 and total = 50), and the runs below evaluate it at i = 0 only, where both
  give 0.
\<close>

definition sample_env :: env where
  "sample_env =
     \<lparr>pg_connect = (\<lambda>log. (True, msg_connected)),
      pg_import_vector_file = (\<lambda>log file_path table_name target_crs. (True, [])),
      session_get = (\<lambda>log url. Inr \<lparr>status_code = 200, response_text = []\<rparr>),
      session_post = (\<lambda>log url body.
         Inr \<lparr>status_code = (if SessionPost url body \<in> set log then 409 else 201),
              response_text = []\<rparr>),
      cursor_execute = (\<lambda>log sql. None),
      connection_commit = (\<lambda>log. None),
      connection_rollback = (\<lambda>log. None),
      percent = (\<lambda>i total. int ((100 * i) div total))\<rparr>"

definition sample_processor :: batch_processor where
  "sample_processor =
     \<lparr>base_url = str ''http://gs'',
      params = \<lparr>pg_host = str ''db'', pg_port = 5432, pg_database = str ''gis'',
                pg_user = str ''u'', pg_password = str ''p''\<rparr>\<rparr>"

text \<open>A progress callback that raises when it is called with 100.\<close>

definition raising_at_100 :: progress_callback where
  "raising_at_100 = Some (\<lambda>log v. if v = 100 then Some (Exception (str ''closed'')) else None)"

text \<open>A status callback that raises when it announces the item of the given name.\<close>

definition raising_for :: "pystr \<Rightarrow> status_callback" where
  "raising_for name =
     Some (\<lambda>log m. if m = msg_processing @ name then Some (Exception (str ''closed'')) else None)"

text \<open>Three items: a shapefile, a raster file and a table that is already in the database.\<close>

definition vector_item :: item where
  "vector_item =
     \<lparr>path = str ''/data/roads.shp'', new_name = str ''roads'', item_type = VECTOR_DATA,
      srs = Some (PyStr (str ''EPSG:3857''))\<rparr>"

definition raster_item :: item where
  "raster_item =
     \<lparr>path = str ''/data/dem.tif'', new_name = str ''dem'', item_type = RASTER_DATA,
      srs = Some (PyStr (str ''EPSG:4326''))\<rparr>"

definition table_item :: item where
  "table_item =
     \<lparr>path = str ''public.parcels'', new_name = str ''parcels'', item_type = SPATIAL_TABLE,
      srs = Some (PyStr (str ''EPSG:4326''))\<rparr>"

section \<open>Properties of the normalizer\<close>

lemma name_char_not_upper: "name_char c \<Longrightarrow> \<not> is_upper c"
  by (auto simp: name_char_def is_alnum_def is_upper_def underscore_def)

lemma lower_cp_name_char: "name_char c \<Longrightarrow> lower_cp c = [c]"
  by (auto simp: lower_cp_def name_char_def is_alnum_def is_upper_def underscore_def)

lemma lower_fixed: "list_all name_char s \<Longrightarrow> lower s = s"
  by (induction s) (simp_all add: lower_def lower_cp_name_char)

lemma lower_cp_not_upper: "d \<in> set (lower_cp c) \<Longrightarrow> \<not> is_upper d"
  by (auto simp: lower_cp_def is_upper_def split: if_splits)

lemma lower_not_upper: "d \<in> set (lower s) \<Longrightarrow> \<not> is_upper d"
  by (auto simp: lower_def dest: lower_cp_not_upper)

lemma sub_invalid_all: "list_all name_char (sub_invalid s)"
  by (induction s) (simp_all add: sub_invalid_def name_char_def)

lemma sub_invalid_fixed: "list_all name_char s \<Longrightarrow> sub_invalid s = s"
  by (induction s) (simp_all add: sub_invalid_def)

lemma set_sub_underscores: "set (sub_underscores s) = set s"
  by (induction s rule: sub_underscores.induct) auto

lemma sub_underscores_Cons: "\<exists>r. sub_underscores (c # cs) = c # r"
  by (induction cs arbitrary: c) auto

lemma sub_underscores_no_double: "no_double_underscore (sub_underscores s)"
  unfolding no_double_underscore_def
proof (induction s rule: sub_underscores.induct)
  case (3 c d cs)
  obtain r where r: "sub_underscores (d # cs) = d # r"
    using sub_underscores_Cons by blast
  with 3 show ?case by auto
qed simp_all

lemma sub_underscores_fixed: "no_double_underscore s \<Longrightarrow> sub_underscores s = s"
  unfolding no_double_underscore_def
  by (induction s rule: sub_underscores.induct) auto

lemma successively_dropWhile:
  "successively R s \<Longrightarrow> successively R (dropWhile P s)"
proof -
  assume "successively R s"
  then have "successively R (takeWhile P s @ dropWhile P s)" by simp
  then show ?thesis by (simp only: successively_append_iff)
qed

lemma strip_no_double: "no_double_underscore s \<Longrightarrow> no_double_underscore (strip_underscores s)"
proof -
  let ?R = "\<lambda>a b. \<not> (a = underscore \<and> b = underscore)"
  let ?P = "\<lambda>c. c = underscore"
  assume "no_double_underscore s"
  then have "successively ?R (dropWhile ?P s)"
    unfolding no_double_underscore_def by (rule successively_dropWhile)
  then have "successively (\<lambda>a b. ?R b a) (rev (dropWhile ?P s))"
    by simp
  then have "successively (\<lambda>a b. ?R b a) (dropWhile ?P (rev (dropWhile ?P s)))"
    by (rule successively_dropWhile)
  then show ?thesis
    unfolding no_double_underscore_def strip_underscores_def by simp
qed

lemma last_dropWhile_nonempty: "dropWhile P s \<noteq> [] \<Longrightarrow> last (dropWhile P s) = last s"
proof -
  assume ne: "dropWhile P s \<noteq> []"
  have "last s = last (takeWhile P s @ dropWhile P s)" by simp
  also have "\<dots> = last (dropWhile P s)" using ne by (rule last_appendR)
  finally show ?thesis by simp
qed

lemma strip_no_edge: "no_edge_underscore (strip_underscores s)"
proof -
  define P where "P = (\<lambda>c. c = underscore)"
  define t where "t = dropWhile P s"
  define u where "u = dropWhile P (rev t)"
  have strip: "strip_underscores s = rev u"
    by (simp only: strip_underscores_def u_def t_def P_def)
  show ?thesis
  proof (cases "u = []")
    case True
    then show ?thesis by (simp add: strip no_edge_underscore_def)
  next
    case False
    then have "\<not> P (hd u)" unfolding u_def by (rule hd_dropWhile)
    then have hd_u: "hd u \<noteq> underscore" by (simp add: P_def)
    have t_ne: "t \<noteq> []"
    proof
      assume "t = []"
      then have "u = []" by (simp add: u_def)
      with False show False by (rule notE)
    qed
    then have "\<not> P (hd t)" unfolding t_def by (rule hd_dropWhile)
    then have hd_t: "hd t \<noteq> underscore" by (simp add: P_def)
    have "last u = last (rev t)"
      using False unfolding u_def by (rule last_dropWhile_nonempty)
    then have last_u: "last u \<noteq> underscore"
      using hd_t by (simp add: last_rev)
    have "rev u \<noteq> []" using False by simp
    moreover have "hd (rev u) \<noteq> underscore" using last_u by (simp add: hd_rev)
    moreover have "last (rev u) \<noteq> underscore" using hd_u by (simp add: last_rev)
    ultimately show ?thesis by (simp add: strip no_edge_underscore_def)
  qed
qed

lemma strip_fixed: "no_edge_underscore s \<Longrightarrow> strip_underscores s = s"
proof (cases "s = []")
  case True
  then show ?thesis by (simp add: strip_underscores_def)
next
  case False
  assume "no_edge_underscore s"
  with False have h: "hd s \<noteq> underscore" and l: "last s \<noteq> underscore"
    by (simp_all add: no_edge_underscore_def)
  have 1: "dropWhile (\<lambda>c. c = underscore) s = s"
    using h by (simp add: dropWhile_eq_self_iff)
  have 2: "dropWhile (\<lambda>c. c = underscore) (rev s) = rev s"
    using l by (simp add: dropWhile_eq_self_iff hd_rev)
  show ?thesis by (simp add: strip_underscores_def 1 2)
qed

lemma set_strip_subset: "set (strip_underscores s) \<subseteq> set s"
  unfolding strip_underscores_def
  by (auto dest!: set_dropWhileD)

lemma cleaned_all: "list_all name_char (cleaned name)"
proof -
  have "list_all name_char (sub_underscores (sub_invalid (lower name)))"
    using sub_invalid_all [of "lower name"]
    by (simp add: list_all_iff set_sub_underscores)
  then show ?thesis
    unfolding cleaned_def using set_strip_subset by (auto simp: list_all_iff)
qed

lemma cleaned_no_double: "no_double_underscore (cleaned name)"
  unfolding cleaned_def by (rule strip_no_double) (rule sub_underscores_no_double)

lemma cleaned_no_edge: "no_edge_underscore (cleaned name)"
  unfolding cleaned_def by (rule strip_no_edge)

lemma cleaned_fixed:
  assumes "list_all name_char s" "no_double_underscore s" "no_edge_underscore s"
  shows "cleaned s = s"
  using assms
  by (simp add: cleaned_def lower_fixed sub_invalid_fixed sub_underscores_fixed strip_fixed)

lemma str_unnamed: "str ''unnamed'' = [117, 110, 110, 97, 109, 101, 100]"
  by (simp add: str_def)

lemma unnamed_all: "list_all name_char (str ''unnamed'')"
  by (simp add: str_unnamed name_char_def is_alnum_def)

lemma unnamed_no_double: "no_double_underscore (str ''unnamed'')"
  by (simp add: str_unnamed no_double_underscore_def underscore_def)

lemma unnamed_no_edge: "no_edge_underscore (str ''unnamed'')"
  by (simp add: str_unnamed no_edge_underscore_def underscore_def)

lemma normalize_name_all: "list_all name_char (normalize_name name)"
  by (simp add: normalize_name_def Let_def cleaned_all unnamed_all)

lemma normalize_name_no_double: "no_double_underscore (normalize_name name)"
  by (simp add: normalize_name_def Let_def cleaned_no_double unnamed_no_double)

lemma normalize_name_no_edge: "no_edge_underscore (normalize_name name)"
  by (simp add: normalize_name_def Let_def cleaned_no_edge unnamed_no_edge)

lemma normalize_name_nonempty: "normalize_name name \<noteq> []"
  by (simp add: normalize_name_def Let_def str_unnamed)

subsection \<open>Idempotence\<close>

text \<open>
  C4. The normalizer is idempotent: normalizing a normalized name returns it unchanged.
\<close>

theorem normalize_name_idempotent:
  "normalize_name (normalize_name x) = normalize_name x"
proof -
  have "cleaned (normalize_name x) = normalize_name x"
    by (rule cleaned_fixed)
      (rule normalize_name_all normalize_name_no_double normalize_name_no_edge)+
  then show ?thesis
    using normalize_name_nonempty [of x]
    by (simp add: normalize_name_def [of "normalize_name x"] Let_def)
qed

subsection \<open>Totality, pattern and the fallback name\<close>

lemmas norm_defs = str_def normalize_name_def cleaned_def lower_def lower_cp_def is_upper_def
  sub_invalid_def name_char_def is_alnum_def underscore_def strip_underscores_def Let_def
  clean_col_def col_char_def

lemma filter_alnum_sub_invalid: "filter is_alnum (sub_invalid s) = filter is_alnum s"
  by (induction s) (auto simp: sub_invalid_def name_char_def is_alnum_def underscore_def)

lemma filter_alnum_sub_underscores: "filter is_alnum (sub_underscores s) = filter is_alnum s"
  by (induction s rule: sub_underscores.induct) (auto simp: is_alnum_def underscore_def)

lemma filter_alnum_dropWhile:
  "filter is_alnum (dropWhile (\<lambda>c. c = underscore) s) = filter is_alnum s"
  by (induction s) (auto simp: is_alnum_def underscore_def)

lemma filter_alnum_strip: "filter is_alnum (strip_underscores s) = filter is_alnum s"
proof -
  define t where "t = dropWhile (\<lambda>c. c = underscore) s"
  have "filter is_alnum (strip_underscores s)
      = rev (filter is_alnum (dropWhile (\<lambda>c. c = underscore) (rev t)))"
    by (simp only: strip_underscores_def t_def rev_filter)
  also have "\<dots> = rev (filter is_alnum (rev t))"
    by (simp only: filter_alnum_dropWhile)
  also have "\<dots> = filter is_alnum t"
    by (simp only: rev_filter rev_rev_ident)
  also have "\<dots> = filter is_alnum s"
    by (simp only: t_def filter_alnum_dropWhile)
  finally show ?thesis .
qed

lemma filter_alnum_cleaned: "filter is_alnum (cleaned x) = filter is_alnum (lower x)"
  by (simp only: cleaned_def filter_alnum_strip filter_alnum_sub_underscores filter_alnum_sub_invalid)

lemma all_underscore_no_edge:
  assumes "list_all name_char s" "filter is_alnum s = []" "no_edge_underscore s"
  shows "s = []"
proof (cases s)
  case (Cons c cs)
  from assms(2) Cons have "\<not> is_alnum c" by (auto split: if_splits)
  moreover from assms(1) Cons have "name_char c" by simp
  ultimately have "c = underscore" by (simp add: name_char_def)
  with assms(3) Cons show ?thesis by (simp add: no_edge_underscore_def)
qed simp

lemma cleaned_Nil_iff: "cleaned x = [] \<longleftrightarrow> \<not> list_ex is_alnum (lower x)"
proof
  assume "cleaned x = []"
  then have "filter is_alnum (lower x) = []"
    using filter_alnum_cleaned [of x] by simp
  then show "\<not> list_ex is_alnum (lower x)"
    by (simp add: list_ex_iff filter_empty_conv)
next
  assume "\<not> list_ex is_alnum (lower x)"
  then have "filter is_alnum (cleaned x) = []"
    by (simp add: filter_alnum_cleaned list_ex_iff filter_empty_conv)
  then show "cleaned x = []"
    by (rule all_underscore_no_edge [OF cleaned_all _ cleaned_no_edge])
qed

lemma normalize_name_hd_last:
  "hd (normalize_name x) \<noteq> underscore \<and> last (normalize_name x) \<noteq> underscore"
  using normalize_name_no_edge [of x] normalize_name_nonempty [of x]
  by (simp add: no_edge_underscore_def)

lemma normalize_name_no_upper: "list_all (\<lambda>c. \<not> is_upper c) (normalize_name x)"
  using normalize_name_all [of x] by (auto simp: list_all_iff dest: name_char_not_upper)

lemma normalize_name_not_all_underscores:
  "\<not> list_all (\<lambda>c. c = underscore) (normalize_name x)"
proof
  assume a: "list_all (\<lambda>c. c = underscore) (normalize_name x)"
  obtain c cs where c: "normalize_name x = c # cs"
    using normalize_name_nonempty [of x] by (cases "normalize_name x") auto
  with a have "hd (normalize_name x) = underscore" by simp
  with normalize_name_hd_last [of x] show False by simp
qed

text \<open>
  C5 (amended). The normalizer is total and its output always matches the pattern
  [a-z0-9_]+. It returns the literal "unnamed" whenever the lower-cased input holds no
  letter and no digit; when the input holds one, the letters and digits of the output are
  those of the lower-cased input, in order, so that the output is "unnamed" only for an
  input that spells this word itself.
\<close>

theorem normalize_name_total:
  "matches_name_pattern (normalize_name x) \<and>
   (\<not> list_ex is_alnum (lower x) \<longrightarrow> normalize_name x = str ''unnamed'') \<and>
   (list_ex is_alnum (lower x) \<longrightarrow>
      filter is_alnum (normalize_name x) = filter is_alnum (lower x))"
proof -
  have 1: "matches_name_pattern (normalize_name x)"
    by (simp add: matches_name_pattern_def normalize_name_nonempty normalize_name_all)
  have 2: "normalize_name x = str ''unnamed''" if "\<not> list_ex is_alnum (lower x)"
    using that cleaned_Nil_iff [of x] by (simp add: normalize_name_def)
  have 3: "filter is_alnum (normalize_name x) = filter is_alnum (lower x)"
    if "list_ex is_alnum (lower x)"
    using that cleaned_Nil_iff [of x] by (simp add: normalize_name_def filter_alnum_cleaned)
  from 1 2 3 show ?thesis by blast
qed

theorem normalize_name_total_witness:
  "matches_name_pattern (normalize_name (str ''My File'')) \<and>
   \<not> list_ex is_alnum (lower [36947, 36335, 46]) \<and>
   normalize_name [36947, 36335, 46] = str ''unnamed'' \<and>
   list_ex is_alnum (lower (str ''My File'')) \<and>
   filter is_alnum (normalize_name (str ''My File'')) = str ''myfile''"
  using normalize_name_total [of "str ''My File''"] normalize_name_total [of "[36947, 36335, 46]"]
  by (simp add: str_def lower_def lower_cp_def is_upper_def is_alnum_def)

text \<open>
  The input "unnamed" consists of valid characters only and is mapped to "unnamed".
\<close>

theorem unnamed_with_valid_characters_counterexample:
  "normalize_name (str ''unnamed'') = str ''unnamed'' \<and> list_all name_char (str ''unnamed'')"
  by (simp add: norm_defs)

subsection \<open>Target names of scanned items\<close>

text \<open>
  C6 (amended). The target name of every item that the folder scan builds is not empty,
  consists of characters of [a-z0-9_] only, has no upper-case letter, neither starts nor
  ends with an underscore and so is not made of underscores only. A leading digit is kept.
\<close>

theorem scan_target_name_shape:
  "new_name (scan_data_item file_path stem file_type crs) \<noteq> [] \<and>
   list_all name_char (new_name (scan_data_item file_path stem file_type crs)) \<and>
   list_all (\<lambda>c. \<not> is_upper c) (new_name (scan_data_item file_path stem file_type crs)) \<and>
   hd (new_name (scan_data_item file_path stem file_type crs)) \<noteq> underscore \<and>
   last (new_name (scan_data_item file_path stem file_type crs)) \<noteq> underscore \<and>
   \<not> list_all (\<lambda>c. c = underscore) (new_name (scan_data_item file_path stem file_type crs))"
  by (simp add: scan_data_item_def normalize_name_nonempty normalize_name_all
      normalize_name_no_upper normalize_name_hd_last normalize_name_not_all_underscores)

theorem scan_target_name_shape_witness:
  "new_name (scan_data_item (str ''/data/Roads 2020.shp'') (str ''Roads 2020'') VECTOR_DATA
      (PyStr (str ''EPSG:4326''))) = str ''roads_2020'' \<and>
   hd (str ''roads_2020'') \<noteq> underscore \<and> last (str ''roads_2020'') \<noteq> underscore"
  using scan_target_name_shape [of "str ''/data/Roads 2020.shp''" "str ''Roads 2020''" VECTOR_DATA
      "PyStr (str ''EPSG:4326'')"]
  by (simp add: scan_data_item_def norm_defs)

text \<open>The file 1abc.shp gets the target name "1abc", which starts with a digit.\<close>

theorem target_name_leading_digit_counterexample:
  "new_name (scan_data_item (str ''/data/1abc.shp'') (str ''1abc'') VECTOR_DATA
      (PyStr (str ''EPSG:4326''))) = str ''1abc'' \<and>
   is_digit (hd (new_name (scan_data_item (str ''/data/1abc.shp'') (str ''1abc'') VECTOR_DATA
      (PyStr (str ''EPSG:4326'')))))"
  by (simp add: scan_data_item_def norm_defs is_digit_def)

section \<open>Properties of the column renaming\<close>

lemma clean_col_sub_invalid: "clean_col col = sub_invalid (lower col)"
  unfolding clean_col_def sub_invalid_def
  by (rule map_cong) (auto simp: col_char_def dest: lower_not_upper)

lemma rename_columns_mapping:
  "rename_columns (column_mapping columns) columns =
     map (\<lambda>col. if col = str ''geom'' then col else clean_col col) columns"
proof -
  have "map_of (column_mapping columns) col =
          (if col \<in> set columns \<and> col \<noteq> str ''geom'' then Some (clean_col col) else None)" for col
    unfolding column_mapping_def
    by (simp add: map_of_map_restrict restrict_map_def)
  then show ?thesis
    unfolding rename_columns_def by (intro map_cong) auto
qed

lemma clean_col_eq_normalize_iff:
  "clean_col col = normalize_name col \<longleftrightarrow>
     clean_col col \<noteq> [] \<and> no_double_underscore (clean_col col) \<and> no_edge_underscore (clean_col col)"
proof
  assume "clean_col col = normalize_name col"
  then show "clean_col col \<noteq> [] \<and> no_double_underscore (clean_col col)
      \<and> no_edge_underscore (clean_col col)"
    by (simp add: normalize_name_nonempty normalize_name_no_double normalize_name_no_edge)
next
  assume a: "clean_col col \<noteq> [] \<and> no_double_underscore (clean_col col)
      \<and> no_edge_underscore (clean_col col)"
  then have "cleaned col = clean_col col"
    by (simp add: cleaned_def clean_col_sub_invalid [symmetric] sub_underscores_fixed strip_fixed)
  with a show "clean_col col = normalize_name col"
    by (simp add: normalize_name_def)
qed

text \<open>
  C9 (amended). import_vector_file renames every column other than geom to its
  lower-cased name with each character outside [a-zA-Z0-9_] replaced by an underscore,
  which is the first rewriting step of the normalizer only: runs of underscores are not
  collapsed, leading and trailing underscores are kept and an empty name stays empty. The
  new name equals the normalized name exactly when it is not empty and has no doubled,
  leading or trailing underscore.
\<close>

theorem import_vector_column_names:
  "rename_columns (column_mapping columns) columns =
     map (\<lambda>col. if col = str ''geom'' then col else sub_invalid (lower col)) columns \<and>
   (clean_col col = normalize_name col \<longleftrightarrow>
      clean_col col \<noteq> [] \<and> no_double_underscore (clean_col col) \<and>
      no_edge_underscore (clean_col col))"
  using rename_columns_mapping [of columns] clean_col_eq_normalize_iff [of col]
  by (simp add: clean_col_sub_invalid)

theorem import_vector_column_names_witness:
  "rename_columns (column_mapping [str ''Shape_Area'', str ''geom'', str ''POP (2020)''])
     [str ''Shape_Area'', str ''geom'', str ''POP (2020)''] =
     [str ''shape_area'', str ''geom'', str ''pop__2020_''] \<and>
   clean_col (str ''Shape_Area'') = normalize_name (str ''Shape_Area'')"
  using import_vector_column_names [of "[str ''Shape_Area'', str ''geom'', str ''POP (2020)'']"
      "str ''Shape_Area''"]
  by (simp add: norm_defs no_double_underscore_def no_edge_underscore_def)

text \<open>
  The column "POP (2020)" is renamed to "pop__2020_", while the normalizer gives
  "pop_2020".
\<close>

theorem column_name_not_normalized_counterexample:
  "rename_columns (column_mapping [str ''POP (2020)'']) [str ''POP (2020)''] = [str ''pop__2020_''] \<and>
   normalize_name (str ''POP (2020)'') = str ''pop_2020'' \<and>
   str ''pop__2020_'' \<noteq> str ''pop_2020''"
  by (simp add: norm_defs rename_columns_def column_mapping_def)

section \<open>Status codes of the publisher\<close>

text \<open>
  C7. create_workspace succeeds exactly when the POST returns with status 200, 201 or
  409, so a second call with the same name, answered 409, succeeds as well;
  publish_layer_from_table succeeds exactly when the POST returns with status 200 or 201,
  so a 409 for a layer that exists is a failure.
\<close>

theorem workspace_conflict_tolerated_publish_conflict_failure:
  "(fst (fst (create_workspace env base workspace_name namespace_uri log)) \<longleftrightarrow>
      (\<exists>r. session_post env log (workspaces_url base)
              (workspace_json workspace_name namespace_uri) = Inr r \<and>
           status_code r \<in> {200, 201, 409})) \<and>
   (fst (fst (publish_layer_from_table env base workspace datastore table_name layer_name
               title srs_value log')) \<longleftrightarrow>
      (\<exists>r. session_post env log' (featuretypes_url base workspace datastore)
              (featuretype_json table_name layer_name title srs_value) = Inr r \<and>
           status_code r \<in> {200, 201}))"
  by (auto simp: create_workspace_def publish_layer_from_table_def Let_def split: sum.splits)

lemmas gateway_defs = create_workspace_def publish_layer_from_table_def workspaces_url_def
  workspace_json_def featuretypes_url_def featuretype_json_def sample_env_def Let_def

theorem workspace_conflict_tolerated_publish_conflict_failure_witness:
  "fst (fst (create_workspace sample_env (str ''http://gs'') (str ''ws'') None [])) \<and>
   fst (fst (create_workspace sample_env (str ''http://gs'') (str ''ws'') None
     (snd (create_workspace sample_env (str ''http://gs'') (str ''ws'') None [])))) \<and>
   fst (fst (publish_layer_from_table sample_env (str ''http://gs'') (str ''ws'') (str ''ds'')
     (str ''roads'') None None (PyStr (str ''EPSG:4326'')) [])) \<and>
   \<not> fst (fst (publish_layer_from_table sample_env (str ''http://gs'') (str ''ws'') (str ''ds'')
     (str ''roads'') None None (PyStr (str ''EPSG:4326''))
     (snd (publish_layer_from_table sample_env (str ''http://gs'') (str ''ws'') (str ''ds'')
       (str ''roads'') None None (PyStr (str ''EPSG:4326'')) []))))"
  using workspace_conflict_tolerated_publish_conflict_failure
    [of sample_env "str ''http://gs''" "str ''ws''" None "[]" "str ''ws''" "str ''ds''"
      "str ''roads''" None None "PyStr (str ''EPSG:4326'')" "[]"]
  by (simp add: gateway_defs)

section \<open>Where the identifier rule is checked\<close>

lemma main_window_rejects_invalid:
  "\<not> valid_identifier requested \<Longrightarrow>
   filter is_db_event (main_window_rename_table env current_name schema_name (Accepted requested) log)
     = filter is_db_event log"
  by (simp add: main_window_rename_table_def)

lemma rename_table_executes:
  "take (Suc (length log)) (snd (rename_table env old_name requested schema log))
     = log @ [CursorExecute (rename_sql schema old_name requested)]"
  by (simp add: rename_table_def rename_failed_def Let_def split: option.splits)

lemma main_window_warns_invalid:
  "\<not> valid_identifier requested \<Longrightarrow> requested \<noteq> [] \<Longrightarrow> requested \<noteq> current_name \<Longrightarrow>
   main_window_rename_table env current_name schema_name (Accepted requested) log
     = log @ [WarningBox]"
  by (simp add: main_window_rename_table_def)

text \<open>
  C8 (amended). The identifier rule is enforced by the caller of the gateway:
  ImprovedMainWindow.rename_table never lets a new name that violates the rule reach the
  database: no connection, statement, commit or rollback is added to the trace. It shows
  a warning for such a name, unless the name is empty or equal to the current name, in
  which case it returns without any effect. The gateway's rename_table checks nothing: for
  every new name its first effect is to execute the ALTER TABLE statement.
\<close>

theorem rename_rule_enforced_by_main_window:
  "(\<not> valid_identifier requested \<longrightarrow>
      filter is_db_event
        (main_window_rename_table env current_name schema_name (Accepted requested) log)
        = filter is_db_event log) \<and>
   (\<not> valid_identifier requested \<and> requested \<noteq> [] \<and> requested \<noteq> current_name \<longrightarrow>
      main_window_rename_table env current_name schema_name (Accepted requested) log
        = log @ [WarningBox]) \<and>
   (requested = [] \<or> requested = current_name \<longrightarrow>
      main_window_rename_table env current_name schema_name (Accepted requested) log = log) \<and>
   take (Suc (length log)) (snd (rename_table env old_name requested' schema log))
     = log @ [CursorExecute (rename_sql schema old_name requested')]"
  using main_window_rejects_invalid [of requested env current_name schema_name log]
    main_window_warns_invalid [of requested current_name env schema_name log]
    rename_table_executes [of log env old_name requested' schema]
  by (auto simp: main_window_rename_table_def)

lemmas rename_defs = main_window_rename_table_def rename_table_def rename_failed_def
  valid_identifier_def is_letter_def is_upper_def col_char_def name_char_def is_alnum_def
  underscore_def sample_env_def str_def Let_def

theorem rename_rule_enforced_by_main_window_witness:
  "\<not> valid_identifier (str ''1abc'') \<and>
   main_window_rename_table sample_env (str ''t'') (str ''public'') (Accepted (str ''1abc'')) []
     = [WarningBox] \<and>
   main_window_rename_table sample_env (str ''1abc'') (str ''public'') (Accepted (str ''1abc'')) []
     = [] \<and>
   valid_identifier (str ''abc_1'') \<and>
   main_window_rename_table sample_env (str ''t'') (str ''public'') (Accepted (str ''abc_1'')) []
     = [PgConnect, CursorExecute (rename_sql (str ''public'') (str ''t'') (str ''abc_1'')),
        ConnectionCommit, InformationBox]"
  using rename_rule_enforced_by_main_window
    [of "str ''1abc''" sample_env "str ''t''" "str ''public''" "[]" "str ''t''" "str ''abc_1''"
      "str ''public''"]
    rename_rule_enforced_by_main_window
    [of "str ''1abc''" sample_env "str ''1abc''" "str ''public''" "[]" "str ''t''" "str ''abc_1''"
      "str ''public''"]
  by (simp add: rename_defs)

text \<open>
  Called with the new name "1abc", the gateway's rename_table executes the statement,
  commits and reports success.
\<close>

theorem gateway_rename_unchecked_counterexample:
  "\<not> valid_identifier (str ''1abc'') \<and>
   rename_table sample_env (str ''t'') (str ''1abc'') (str ''public'') [] =
     (Inr (True, msg_renamed),
      [CursorExecute (rename_sql (str ''public'') (str ''t'') (str ''1abc'')), ConnectionCommit])"
  by (simp add: rename_defs)

section \<open>Coordinate reference of import and publication\<close>

lemma epsg_4326_startswith: "startswith (str ''EPSG:4326'') (str ''EPSG:'')"
  by (simp add: startswith_def str_def)

text \<open>
  C10. For an item whose coordinate reference string does not start with "EPSG:", the
  import stage replaces it by "EPSG:4326" as the target CRS, which is what a vector import
  hands to the database gateway, while the publish stage posts the item's own string as
  the SRS of the layer; the two differ.
\<close>

theorem import_crs_and_published_srs_differ:
  assumes "item_get_srs it = PyStr s" and "\<not> startswith s (str ''EPSG:'')"
  shows "import_target_crs s = str ''EPSG:4326'' \<and>
    (item_type it = VECTOR_DATA \<longrightarrow>
       snd (import_single_item env it log) =
         log @ [ImportVectorFile (path it) (new_name it) (str ''EPSG:4326'')]) \<and>
    snd (publish_single_item env self it workspace datastore_name log') =
      log' @ [SessionPost (featuretypes_url (base_url self) workspace datastore_name)
                (FeatureTypeJson (new_name it) (new_name it) (new_name it) (PyStr s))] \<and>
    s \<noteq> str ''EPSG:4326''"
proof -
  have 1: "import_target_crs s = str ''EPSG:4326''"
    using assms(2) by (simp add: import_target_crs_def)
  have 2: "snd (import_single_item env it log) =
         log @ [ImportVectorFile (path it) (new_name it) (str ''EPSG:4326'')]"
    if "item_type it = VECTOR_DATA"
    using that assms(1) 1 by (simp add: import_single_item_def Let_def)
  have 3: "snd (publish_single_item env self it workspace datastore_name log') =
      log' @ [SessionPost (featuretypes_url (base_url self) workspace datastore_name)
                (FeatureTypeJson (new_name it) (new_name it) (new_name it) (PyStr s))]"
    using assms(1)
    by (simp add: publish_single_item_def publish_layer_from_table_def featuretype_json_def Let_def)
  have 4: "s \<noteq> str ''EPSG:4326''"
    using assms(2) epsg_4326_startswith by auto
  from 1 2 3 4 show ?thesis by blast
qed

lemmas batch_item_defs = import_single_item_def publish_single_item_def
  publish_layer_from_table_def featuretype_json_def featuretypes_url_def import_target_crs_def
  item_get_srs_def startswith_def import_raster_file_def
  VECTOR_DATA_def RASTER_DATA_def SPATIAL_TABLE_def

theorem import_crs_and_published_srs_differ_witness:
  "item_get_srs (vector_item\<lparr>srs := Some (PyStr (str ''ESRI:102003''))\<rparr>) = PyStr (str ''ESRI:102003'') \<and>
   \<not> startswith (str ''ESRI:102003'') (str ''EPSG:'') \<and>
   snd (import_single_item sample_env (vector_item\<lparr>srs := Some (PyStr (str ''ESRI:102003''))\<rparr>) []) =
     [ImportVectorFile (str ''/data/roads.shp'') (str ''roads'') (str ''EPSG:4326'')] \<and>
   snd (publish_single_item sample_env sample_processor
          (vector_item\<lparr>srs := Some (PyStr (str ''ESRI:102003''))\<rparr>) (str ''ws'') (str ''ds'') []) =
     [SessionPost (featuretypes_url (str ''http://gs'') (str ''ws'') (str ''ds''))
        (FeatureTypeJson (str ''roads'') (str ''roads'') (str ''roads'')
           (PyStr (str ''ESRI:102003'')))]"
proof -
  have a: "item_get_srs (vector_item\<lparr>srs := Some (PyStr (str ''ESRI:102003''))\<rparr>)
      = PyStr (str ''ESRI:102003'')"
    by (simp add: item_get_srs_def)
  have b: "\<not> startswith (str ''ESRI:102003'') (str ''EPSG:'')"
    by (simp add: startswith_def str_def)
  show ?thesis
    using a b import_crs_and_published_srs_differ [OF a b, of sample_env "[]" sample_processor
        "str ''ws''" "str ''ds''" "[]"]
    by (simp add: vector_item_def sample_processor_def)
qed

section \<open>The loop of the batch processor\<close>

lemma process_item_counted:
  "fst (process_item env self progress_cb status_cb workspace datastore_name total_items i it st)
     + fst (snd (process_item env self progress_cb status_cb workspace datastore_name total_items i it st))
   = fst st + fst (snd st) + 1"
  by (cases st) (simp add: process_item_def split: prod.splits option.splits)

lemma process_loop_counted:
  "fst (process_loop env self progress_cb status_cb workspace datastore_name total_items i its st)
     + fst (snd (process_loop env self progress_cb status_cb workspace datastore_name total_items i its st))
   = fst st + fst (snd st) + length its"
proof (induction its arbitrary: i st)
  case Nil
  then show ?case by simp
next
  case (Cons it its)
  show ?case
    by (simp add: Cons.IH process_item_counted)
qed

lemma failed_items_append: "failed_items (xs @ ys) = failed_items xs @ failed_items ys"
  by (induction xs rule: failed_items.induct) simp_all

lemma call_progress_failed_items:
  "failed_items (snd (call_progress cb v log)) = failed_items log"
  by (simp add: call_progress_def failed_items_append split: option.splits)

lemma call_status_failed_items:
  "failed_items (snd (call_status cb m log)) = failed_items log"
  by (simp add: call_status_def failed_items_append split: option.splits)

lemma announce_failed_items:
  "failed_items (snd (announce env pcb scb total_items i it log)) = failed_items log"
  using call_progress_failed_items [of pcb "percent env i total_items" log]
    call_status_failed_items [of scb "msg_processing @ new_name it"
      "snd (call_progress pcb (percent env i total_items) log)"]
  by (auto simp: announce_def split: prod.splits option.splits)

lemma import_failed_items:
  "failed_items (snd (import_single_item env it log)) = failed_items log"
  by (simp add: import_single_item_def Let_def failed_items_append split: pyval.splits)

lemma publish_failed_items:
  "failed_items (snd (publish_single_item env self it workspace datastore_name log))
     = failed_items log"
  by (simp add: publish_single_item_def publish_layer_from_table_def Let_def failed_items_append)

lemma process_item_failures_logged:
  assumes "length (failed_items (snd (snd st))) = k + fst (snd st)"
  shows "length (failed_items (snd (snd (process_item env self pcb scb workspace datastore_name
            total_items i it st))))
     = k + fst (snd (process_item env self pcb scb workspace datastore_name total_items i it st))"
proof -
  obtain sc ec log where st: "st = (sc, ec, log)" by (cases st) auto
  obtain r log1 where a: "announce env pcb scb total_items i it log = (r, log1)"
    by (cases "announce env pcb scb total_items i it log") auto
  obtain imp log2 where b: "import_single_item env it log1 = (imp, log2)"
    by (cases "import_single_item env it log1") auto
  obtain pub log3 where c: "publish_single_item env self it workspace datastore_name log2 = (pub, log3)"
    by (cases "publish_single_item env self it workspace datastore_name log2") auto
  have 1: "failed_items log1 = failed_items log"
    using announce_failed_items [of env pcb scb total_items i it log] a by simp
  have 2: "failed_items log2 = failed_items log1"
    using import_failed_items [of env it log1] b by simp
  have 3: "failed_items log3 = failed_items log2"
    using publish_failed_items [of env self it workspace datastore_name log2] c by simp
  show ?thesis
    using assms st a b c 1 2 3
    by (auto simp: process_item_def failed_items_append split: option.splits)
qed

lemma process_loop_failures_logged:
  "length (failed_items (snd (snd st))) = k + fst (snd st) \<Longrightarrow>
   length (failed_items (snd (snd (process_loop env self pcb scb workspace datastore_name
            total_items i its st))))
     = k + fst (snd (process_loop env self pcb scb workspace datastore_name total_items i its st))"
proof (induction its arbitrary: i st)
  case Nil
  then show ?case by simp
next
  case (Cons it its)
  show ?case
    by (simp add: Cons.IH process_item_failures_logged [OF Cons.prems])
qed

lemma recorded_items_append: "recorded_items (xs @ ys) = recorded_items xs @ recorded_items ys"
  by (induction xs rule: recorded_items.induct) simp_all

lemma announce_recorded_items:
  "recorded_items (snd (announce env pcb scb total_items i it log)) = recorded_items log"
  by (auto simp: announce_def call_progress_def call_status_def recorded_items_append
      split: prod.splits option.splits)

lemma import_recorded_items:
  "recorded_items (snd (import_single_item env it log)) = recorded_items log"
  by (simp add: import_single_item_def Let_def recorded_items_append split: pyval.splits)

lemma publish_recorded_items:
  "recorded_items (snd (publish_single_item env self it workspace datastore_name log))
     = recorded_items log"
  by (simp add: publish_single_item_def publish_layer_from_table_def Let_def recorded_items_append)

lemma process_item_trace:
  assumes st'_def: "st' = process_item env self pcb scb workspace datastore_name total_items i it st"
  shows "recorded_items (snd (snd st')) = recorded_items (snd (snd st)) @ [new_name it] \<and>
    failed_items (snd (snd st')) =
      failed_items (snd (snd st)) @ (if fst st' = Suc (fst st) then [] else [new_name it]) \<and>
    fst st' = fst st + (if fst st' = Suc (fst st) then 1 else 0) \<and>
    fst (snd st') = fst (snd st) + (if fst st' = Suc (fst st) then 0 else 1)"
proof -
  obtain sc ec log where st: "st = (sc, ec, log)" by (cases st) auto
  obtain r log1 where a: "announce env pcb scb total_items i it log = (r, log1)"
    by (cases "announce env pcb scb total_items i it log") auto
  obtain imp log2 where b: "import_single_item env it log1 = (imp, log2)"
    by (cases "import_single_item env it log1") auto
  obtain pub log3 where c: "publish_single_item env self it workspace datastore_name log2 = (pub, log3)"
    by (cases "publish_single_item env self it workspace datastore_name log2") auto
  have r1: "recorded_items log1 = recorded_items log"
    using announce_recorded_items [of env pcb scb total_items i it log] a by simp
  have r2: "recorded_items log2 = recorded_items log1"
    using import_recorded_items [of env it log1] b by simp
  have r3: "recorded_items log3 = recorded_items log2"
    using publish_recorded_items [of env self it workspace datastore_name log2] c by simp
  have f1: "failed_items log1 = failed_items log"
    using announce_failed_items [of env pcb scb total_items i it log] a by simp
  have f2: "failed_items log2 = failed_items log1"
    using import_failed_items [of env it log1] b by simp
  have f3: "failed_items log3 = failed_items log2"
    using publish_failed_items [of env self it workspace datastore_name log2] c by simp
  show ?thesis
    unfolding st'_def
    using st a b c r1 r2 r3 f1 f2 f3
    by (auto simp: process_item_def recorded_items_append failed_items_append
        split: option.splits)
qed

lemma item_results_items:
  "map fst (item_results env self pcb scb workspace datastore_name total_items i its st) = its"
  by (induction its arbitrary: i st) (simp_all add: Let_def)

lemma process_loop_trace:
  "recorded_items (snd (snd (process_loop env self pcb scb workspace datastore_name total_items
      i its st))) = recorded_items (snd (snd st)) @ map new_name its \<and>
   failed_items (snd (snd (process_loop env self pcb scb workspace datastore_name total_items
      i its st))) =
     failed_items (snd (snd st)) @
       map (\<lambda>r. new_name (fst r))
         (filter (\<lambda>r. \<not> snd r)
            (item_results env self pcb scb workspace datastore_name total_items i its st)) \<and>
   fst (process_loop env self pcb scb workspace datastore_name total_items i its st) =
     fst st + length (filter snd
       (item_results env self pcb scb workspace datastore_name total_items i its st)) \<and>
   fst (snd (process_loop env self pcb scb workspace datastore_name total_items i its st)) =
     fst (snd st) + length (filter (\<lambda>r. \<not> snd r)
       (item_results env self pcb scb workspace datastore_name total_items i its st))"
proof (induction its arbitrary: i st)
  case Nil
  then show ?case by simp
next
  case (Cons it its)
  let ?st' = "process_item env self pcb scb workspace datastore_name total_items i it st"
  note step = process_item_trace [OF refl, of env self pcb scb workspace datastore_name total_items i it st]
  note ih = Cons.IH [of "Suc i" ?st']
  show ?case
  proof (cases "fst ?st' = Suc (fst st)")
    case True
    with step ih show ?thesis by (simp add: Let_def)
  next
    case False
    with step ih show ?thesis by (simp add: Let_def)
  qed
qed

lemma process_loop_append:
  "process_loop env self pcb scb workspace datastore_name total_items i (its @ rest) st =
   process_loop env self pcb scb workspace datastore_name total_items (i + length its) rest
     (process_loop env self pcb scb workspace datastore_name total_items i its st)"
  by (induction its arbitrary: i st) simp_all

text \<open>
  C1. For items that hold the key new_name, as every item built by the scanners does: in
  every turn of the loop the item is counted once, as a success or as a failure. It is
  counted as a success exactly when no callback raised and both the import stage and the
  publish stage returned True. When the import stage fails, the trace of the turn is the
  trace of the import followed by the failure record: nothing is posted to the server.
  When a callback raises, the exception is recorded with the item and the item is counted
  as failed. Whatever happens to an item, the loop goes on with the next one: the trace of
  the loop holds a record for every item, in the order of the items; success_count grows
  by the number of items whose own turn succeeded and error_count by the number of the
  others; and the loop over a list followed by further items is the loop over the further
  items started from the state that the loop over the list left.
\<close>

theorem item_success_iff_import_and_publish:
  assumes "announce env progress_cb status_cb total_items i it log = (raised, log1)"
    and "import_single_item env it log1 = (import_success, log2)"
    and "publish_single_item env self it workspace datastore_name log2 = (publish_success, log3)"
    and "process_item env self progress_cb status_cb workspace datastore_name total_items i it
           (success_count, error_count, log) = (success_count', error_count', log')"
  shows "((success_count' = success_count + 1 \<and> error_count' = error_count) \<or>
          (success_count' = success_count \<and> error_count' = error_count + 1)) \<and>
    (success_count' = success_count + 1 \<longleftrightarrow> raised = None \<and> import_success \<and> publish_success) \<and>
    (raised = None \<and> \<not> import_success \<longrightarrow>
       log' = log2 @ [Logged (ImportFailure (new_name it))]) \<and>
    (\<forall>e. raised = Some e \<longrightarrow>
       error_count' = error_count + 1 \<and>
       log' = log1 @ [Logged (ItemException (new_name it) e)]) \<and>
    fst (process_loop env self progress_cb status_cb workspace datastore_name total_items j its st)
      + fst (snd (process_loop env self progress_cb status_cb workspace datastore_name
                    total_items j its st))
      = fst st + fst (snd st) + length its \<and>
    recorded_items (snd (snd (process_loop env self progress_cb status_cb workspace datastore_name
        total_items j its st))) = recorded_items (snd (snd st)) @ map new_name its \<and>
    fst (process_loop env self progress_cb status_cb workspace datastore_name total_items j its st)
      = fst st + length (filter snd
          (item_results env self progress_cb status_cb workspace datastore_name total_items j its st)) \<and>
    fst (snd (process_loop env self progress_cb status_cb workspace datastore_name total_items j
        its st))
      = fst (snd st) + length (filter (\<lambda>r. \<not> snd r)
          (item_results env self progress_cb status_cb workspace datastore_name total_items j its st)) \<and>
    process_loop env self progress_cb status_cb workspace datastore_name total_items j
        (its @ rest) st =
      process_loop env self progress_cb status_cb workspace datastore_name total_items
        (j + length its) rest
        (process_loop env self progress_cb status_cb workspace datastore_name total_items j its st)"
proof -
  have item: "((success_count' = success_count + 1 \<and> error_count' = error_count) \<or>
          (success_count' = success_count \<and> error_count' = error_count + 1)) \<and>
    (success_count' = success_count + 1 \<longleftrightarrow> raised = None \<and> import_success \<and> publish_success) \<and>
    (raised = None \<and> \<not> import_success \<longrightarrow>
       log' = log2 @ [Logged (ImportFailure (new_name it))]) \<and>
    (\<forall>e. raised = Some e \<longrightarrow>
       error_count' = error_count + 1 \<and>
       log' = log1 @ [Logged (ItemException (new_name it) e)])"
    using assms by (auto simp: process_item_def split: option.splits if_splits)
  note loop = process_loop_counted [of env self progress_cb status_cb workspace datastore_name
      total_items j its st]
    process_loop_trace [of env self progress_cb status_cb workspace datastore_name
      total_items j its st]
    process_loop_append [of env self progress_cb status_cb workspace datastore_name
      total_items j its rest st]
  from item loop show ?thesis by blast
qed

lemmas batch_defs = process_item_def announce_def call_progress_def call_status_def
  completion_def setup_phase_def process_data_items_def result_message_def
  test_connection_def create_workspace_def create_postgresql_datastore_def
  workspaces_url_def workspace_json_def datastores_url_def
  sample_processor_def vector_item_def raster_item_def table_item_def raising_for_def
  raising_at_100_def sample_env_def str_def Let_def

theorem item_success_iff_import_and_publish_witness:
  "process_item sample_env sample_processor None (raising_for (str ''roads'')) (str ''ws'')
     (str ''ds'') 3 0 vector_item (0, 0, []) =
     (0, 1, [StatusCallback (msg_processing @ str ''roads''),
             Logged (ItemException (str ''roads'') (Exception (str ''closed'')))]) \<and>
   fst (process_loop sample_env sample_processor None (raising_for (str ''roads'')) (str ''ws'')
     (str ''ds'') 3 0 [vector_item, raster_item, table_item] (0, 0, [])) = 1 \<and>
   fst (snd (process_loop sample_env sample_processor None (raising_for (str ''roads''))
     (str ''ws'') (str ''ds'') 3 0 [vector_item, raster_item, table_item] (0, 0, []))) = 2 \<and>
   recorded_items (snd (snd (process_loop sample_env sample_processor None
     (raising_for (str ''roads'')) (str ''ws'') (str ''ds'') 3 0
     [vector_item, raster_item, table_item] (0, 0, [])))) =
     [str ''roads'', str ''dem'', str ''parcels''] \<and>
   failed_items (snd (snd (process_loop sample_env sample_processor None
     (raising_for (str ''roads'')) (str ''ws'') (str ''ds'') 3 0
     [vector_item, raster_item, table_item] (0, 0, [])))) = [str ''roads'', str ''dem'']"
proof -
  let ?cb = "raising_for (str ''roads'')"
  let ?l1 = "[StatusCallback (msg_processing @ str ''roads'')]"
  have a: "announce sample_env None ?cb 3 0 vector_item [] = (Some (Exception (str ''closed'')), ?l1)"
    by (simp add: batch_defs msg_processing_def)
  obtain imp l2 where b: "import_single_item sample_env vector_item ?l1 = (imp, l2)"
    by (cases "import_single_item sample_env vector_item ?l1") blast
  obtain p l3 where c: "publish_single_item sample_env sample_processor vector_item (str ''ws'')
      (str ''ds'') l2 = (p, l3)"
    by (cases "publish_single_item sample_env sample_processor vector_item (str ''ws'')
      (str ''ds'') l2") blast
  have d: "process_item sample_env sample_processor None ?cb (str ''ws'') (str ''ds'') 3 0
      vector_item (0, 0, []) =
      (0, 1, ?l1 @ [Logged (ItemException (str ''roads'') (Exception (str ''closed'')))])"
    by (simp add: batch_defs batch_item_defs msg_processing_def)
  have e: "process_loop sample_env sample_processor None ?cb (str ''ws'') (str ''ds'') 3 0
      [vector_item, raster_item, table_item] (0, 0, []) =
      (1, 2,
       [StatusCallback (msg_processing @ str ''roads''),
        Logged (ItemException (str ''roads'') (Exception (str ''closed''))),
        StatusCallback (msg_processing @ str ''dem''),
        Logged (ImportFailure (str ''dem'')),
        StatusCallback (msg_processing @ str ''parcels''),
        SessionPost (featuretypes_url (str ''http://gs'') (str ''ws'') (str ''ds''))
          (FeatureTypeJson (str ''parcels'') (str ''parcels'') (str ''parcels'')
             (PyStr (str ''EPSG:4326''))),
        Logged (ProcessOk (str ''parcels''))])"
    by (simp add: batch_defs batch_item_defs msg_processing_def)
  have g: "item_results sample_env sample_processor None ?cb (str ''ws'') (str ''ds'') 3 0
      [vector_item, raster_item, table_item] (0, 0, []) =
      [(vector_item, False), (raster_item, False), (table_item, True)]"
    by (simp add: batch_defs batch_item_defs msg_processing_def)
  show ?thesis
    using item_success_iff_import_and_publish [OF a b c d, of 0 "[vector_item, raster_item, table_item]" "(0, 0, [])" "[]"]
    unfolding d e g by (simp add: vector_item_def raster_item_def table_item_def)
qed

section \<open>The result of a run\<close>

lemma str_nat_nonempty: "str_nat n \<noteq> []"
  by (subst str_nat.simps) simp

lemma str_nat_digits: "c \<in> set (str_nat n) \<Longrightarrow> 48 \<le> c \<and> c \<le> 57"
proof (induction n rule: str_nat.induct)
  case (1 n)
  show ?case
  proof (cases "n < 10")
    case True
    with "1.prems" show ?thesis by (subst (asm) str_nat.simps) simp
  next
    case False
    have "n mod 10 < 10" by simp
    then have "48 + n mod 10 \<le> 57" by linarith
    with False "1.prems" "1.IH" show ?thesis
      by (subst (asm) str_nat.simps) auto
  qed
qed

lemma str_nat_inj: "str_nat a = str_nat b \<Longrightarrow> a = b"
proof (induction a arbitrary: b rule: str_nat.induct)
  case (1 a)
  show ?case
  proof (cases "a < 10")
    case a: True
    show ?thesis
    proof (cases "b < 10")
      case True
      with a "1.prems" show ?thesis
        by (simp add: str_nat.simps [of a] str_nat.simps [of b])
    next
      case False
      with a "1.prems" str_nat_nonempty [of "b div 10"] show ?thesis
        by (simp add: str_nat.simps [of a] str_nat.simps [of b] Cons_eq_append_conv)
    qed
  next
    case a: False
    show ?thesis
    proof (cases "b < 10")
      case True
      with a "1.prems" str_nat_nonempty [of "a div 10"] show ?thesis
        by (simp add: str_nat.simps [of a] str_nat.simps [of b] append_eq_Cons_conv)
    next
      case False
      with a "1.prems" have "str_nat (a div 10) = str_nat (b div 10)" and m: "a mod 10 = b mod 10"
        by (simp_all add: str_nat.simps [of a] str_nat.simps [of b])
      with a "1.IH" have "a div 10 = b div 10" by blast
      with m show ?thesis by (metis div_mult_mod_eq)
    qed
  qed
qed

lemma split_at_separator:
  "xs @ s # r = ys @ s # r' \<Longrightarrow> s \<notin> set xs \<Longrightarrow> s \<notin> set ys \<Longrightarrow> xs = ys \<and> r = r'"
proof (induction xs arbitrary: ys)
  case Nil
  then show ?case by (cases ys) auto
next
  case (Cons x xs)
  then show ?case by (cases ys) auto
qed

lemma result_message_inj:
  assumes "result_message a b = result_message a' b'"
  shows "a = a' \<and> b = b'"
proof -
  have sep: "(47::nat) \<notin> set (str_nat n)" for n
    using str_nat_digits [of 47 n] by auto
  from assms have "str_nat a @ 47 # (str_nat b @ msg_unit) = str_nat a' @ 47 # (str_nat b' @ msg_unit)"
    by (simp add: result_message_def str_def)
  then have "str_nat a = str_nat a' \<and> str_nat b @ msg_unit = str_nat b' @ msg_unit"
    by (rule split_at_separator) (rule sep)+
  then show ?thesis by (simp add: str_nat_inj)
qed

text \<open>
  C2 (amended). For a run that passes the setup phase and whose two calls after the loop
  (progress 100 and the final status line) return normally, the result is success exactly
  when success_count > 0, so that a run over no items is a failure, and the message is
  "S/T" with S the success count and T the number of items, where S plus the failure
  count is T. When one of the two calls raises, the run returns failure with the text of
  the exception, whatever the tally is.
\<close>

theorem run_result_from_tally:
  assumes "setup_phase env self workspace datastore_name log = (None, log1)"
    and "process_loop env self progress_cb status_cb workspace datastore_name
           (length data_items) 0 data_items (0, 0, log1) = (success_count, error_count, log2)"
    and "completion progress_cb status_cb success_count error_count log2 = (raised, log3)"
  shows "(raised = None \<longrightarrow>
            process_data_items env self data_items workspace datastore_name progress_cb
              status_cb log =
            ((0 < success_count, result_message success_count (length data_items)), log3)) \<and>
    (\<forall>e. raised = Some e \<longrightarrow>
            process_data_items env self data_items workspace datastore_name progress_cb
              status_cb log = ((False, exn_str e), log3)) \<and>
    success_count + error_count = length data_items \<and>
    (data_items = [] \<longrightarrow> success_count = 0)"
proof -
  have "success_count + error_count = length data_items"
    using process_loop_counted [of env self progress_cb status_cb workspace datastore_name
        "length data_items" 0 data_items "(0, 0, log1)"] assms(2)
    by simp
  then show ?thesis
    using assms by (auto simp: process_data_items_def Let_def)
qed

theorem run_result_from_tally_witness:
  "fst (process_data_items sample_env sample_processor [vector_item, raster_item, table_item]
     (str ''ws'') (str ''ws_datastore'') None None []) = (True, result_message 2 3) \<and>
   fst (process_data_items sample_env sample_processor [] (str ''ws'') (str ''ws_datastore'')
     None None []) = (False, result_message 0 0)"
proof -
  define log1 where
    "log1 = snd (setup_phase sample_env sample_processor (str ''ws'') (str ''ws_datastore'') [])"
  define log2 where
    "log2 = snd (snd (process_loop sample_env sample_processor None None (str ''ws'')
       (str ''ws_datastore'') (length [vector_item, raster_item, table_item]) 0
       [vector_item, raster_item, table_item] (0, 0, log1)))"
  have s: "setup_phase sample_env sample_processor (str ''ws'') (str ''ws_datastore'') []
      = (None, log1)"
    unfolding log1_def by (simp add: batch_defs)
  have l: "process_loop sample_env sample_processor None None (str ''ws'') (str ''ws_datastore'')
      (length [vector_item, raster_item, table_item]) 0 [vector_item, raster_item, table_item]
      (0, 0, log1) = (2, 1, log2)"
    unfolding log2_def log1_def by (simp add: batch_defs batch_item_defs)
  have c: "completion None None 2 1 log2 = (None, log2)"
    by (simp add: completion_def call_progress_def call_status_def)
  have l0: "process_loop sample_env sample_processor None None (str ''ws'') (str ''ws_datastore'')
      (length ([] :: item list)) 0 [] (0, 0, log1) = (0, 0, log1)"
    by simp
  have c0: "completion None None 0 0 log1 = (None, log1)"
    by (simp add: completion_def call_progress_def call_status_def)
  show ?thesis
    using run_result_from_tally [OF s l c] run_result_from_tally [OF s l0 c0]
    by (simp add: numeral_3_eq_3)
qed

text \<open>
  One table is published, so success_count is 1; the progress callback raises at 100 and
  the run returns failure with the text of the exception.
\<close>

theorem completion_callback_raises_counterexample:
  "fst (process_loop sample_env sample_processor raising_at_100 None (str ''ws'')
     (str ''ws_datastore'') 1 0 [table_item]
     (0, 0, snd (setup_phase sample_env sample_processor (str ''ws'') (str ''ws_datastore'') [])))
     = 1 \<and>
   fst (process_data_items sample_env sample_processor [table_item] (str ''ws'')
     (str ''ws_datastore'') raising_at_100 None []) = (False, str ''closed'')"
  by (simp add: batch_defs batch_item_defs)

text \<open>
  C3 (amended). A run that passes the setup phase and completes returns to its caller a
  pair of a flag and a message, and nothing else. The message determines the success
  count and the number of items; the failure count is their difference. The names of the
  failed items, that is of the items whose turn of the loop did not raise success_count,
  are written to the log in the order of the items, each with its error line or its
  logged exception, and are not part of what is returned.
\<close>

theorem run_returns_flag_and_message:
  assumes "setup_phase env self workspace datastore_name log = (None, log1)"
    and "process_loop env self progress_cb status_cb workspace datastore_name
           (length data_items) 0 data_items (0, 0, log1) = (success_count, error_count, log2)"
    and "completion progress_cb status_cb success_count error_count log2 = (None, log3)"
  shows "fst (process_data_items env self data_items workspace datastore_name progress_cb
             status_cb log) = (0 < success_count, result_message success_count (length data_items)) \<and>
    (\<forall>a b. result_message a b = result_message success_count (length data_items) \<longrightarrow>
       a = success_count \<and> b = length data_items) \<and>
    error_count = length data_items - success_count \<and>
    length (failed_items log2) = length (failed_items log1) + error_count \<and>
    failed_items log2 =
      failed_items log1 @
        map (\<lambda>r. new_name (fst r))
          (filter (\<lambda>r. \<not> snd r)
             (item_results env self progress_cb status_cb workspace datastore_name
                (length data_items) 0 data_items (0, 0, log1))) \<and>
    map fst (item_results env self progress_cb status_cb workspace datastore_name
                (length data_items) 0 data_items (0, 0, log1)) = data_items \<and>
    success_count = length (filter snd
      (item_results env self progress_cb status_cb workspace datastore_name
         (length data_items) 0 data_items (0, 0, log1)))"
proof -
  have 1: "success_count + error_count = length data_items"
    using process_loop_counted [of env self progress_cb status_cb workspace datastore_name
        "length data_items" 0 data_items "(0, 0, log1)"] assms(2)
    by simp
  have 2: "length (failed_items log2) = length (failed_items log1) + error_count"
    using process_loop_failures_logged [of "(0, 0, log1)" "length (failed_items log1)" env self
        progress_cb status_cb workspace datastore_name "length data_items" 0 data_items] assms(2)
    by simp
  have 3: "fst (process_data_items env self data_items workspace datastore_name progress_cb
             status_cb log) = (0 < success_count, result_message success_count (length data_items))"
    using assms by (simp add: process_data_items_def Let_def)
  have 4: "failed_items log2 =
      failed_items log1 @
        map (\<lambda>r. new_name (fst r))
          (filter (\<lambda>r. \<not> snd r)
             (item_results env self progress_cb status_cb workspace datastore_name
                (length data_items) 0 data_items (0, 0, log1)))"
    and 5: "success_count = length (filter snd
      (item_results env self progress_cb status_cb workspace datastore_name
         (length data_items) 0 data_items (0, 0, log1)))"
    using process_loop_trace [of env self progress_cb status_cb workspace datastore_name
        "length data_items" 0 data_items "(0, 0, log1)"] assms(2)
    by simp_all
  note 6 = item_results_items [of env self progress_cb status_cb workspace datastore_name
        "length data_items" 0 data_items "(0, 0, log1)"]
  have 7: "\<forall>a b. result_message a b = result_message success_count (length data_items) \<longrightarrow>
       a = success_count \<and> b = length data_items"
    using result_message_inj by blast
  from 1 have 8: "error_count = length data_items - success_count" by simp
  from 2 3 4 5 6 7 8 show ?thesis by blast
qed

theorem run_returns_flag_and_message_witness:
  "fst (process_data_items sample_env sample_processor [raster_item, table_item, vector_item]
     (str ''ws'') (str ''ws_datastore'') None (raising_for (str ''roads'')) [])
     = (True, result_message 1 3) \<and>
   failed_items (snd (process_data_items sample_env sample_processor
     [raster_item, table_item, vector_item]
     (str ''ws'') (str ''ws_datastore'') None (raising_for (str ''roads'')) []))
     = [str ''dem'', str ''roads'']"
proof -
  let ?cb = "raising_for (str ''roads'')"
  let ?its = "[raster_item, table_item, vector_item]"
  define log1 where
    "log1 = snd (setup_phase sample_env sample_processor (str ''ws'') (str ''ws_datastore'') [])"
  define log2 where
    "log2 = snd (snd (process_loop sample_env sample_processor None ?cb (str ''ws'')
       (str ''ws_datastore'') (length ?its) 0 ?its (0, 0, log1)))"
  have s: "setup_phase sample_env sample_processor (str ''ws'') (str ''ws_datastore'') []
      = (None, log1)"
    unfolding log1_def by (simp add: batch_defs)
  have l: "process_loop sample_env sample_processor None ?cb (str ''ws'') (str ''ws_datastore'')
      (length ?its) 0 ?its (0, 0, log1) = (1, 2, log2)"
    unfolding log2_def log1_def by (simp add: batch_defs batch_item_defs msg_processing_def msg_done_def)
  have c: "completion None ?cb 1 2 log2 = (None, log2 @ [StatusCallback
      (msg_done @ str_nat 1 @ msg_failed_part @ str_nat 2)])"
    by (simp add: completion_def call_progress_def call_status_def raising_for_def
        msg_processing_def msg_done_def)
  have g: "item_results sample_env sample_processor None ?cb (str ''ws'') (str ''ws_datastore'')
      (length ?its) 0 ?its (0, 0, log1) =
      [(raster_item, False), (table_item, True), (vector_item, False)]"
    unfolding log1_def by (simp add: batch_defs batch_item_defs msg_processing_def)
  have f0: "failed_items log1 = []"
    unfolding log1_def by (simp add: batch_defs)
  have p: "snd (process_data_items sample_env sample_processor ?its (str ''ws'')
      (str ''ws_datastore'') None ?cb []) =
      log2 @ [StatusCallback (msg_done @ str_nat 1 @ msg_failed_part @ str_nat 2)]"
    using s l c by (simp add: process_data_items_def Let_def)
  show ?thesis
    using run_returns_flag_and_message [OF s l c] unfolding g p f0
    by (simp add: failed_items_append raster_item_def vector_item_def numeral_3_eq_3)
qed

text \<open>
  Two runs over two items each: in the first the raster file "dem" fails, in the second
  the item "parcels" fails. Both return the same flag and the same message.
\<close>

theorem failure_list_not_returned_counterexample:
  "fst (process_data_items sample_env sample_processor [raster_item, table_item]
     (str ''ws'') (str ''ws_datastore'') None None []) =
   fst (process_data_items sample_env sample_processor
     [vector_item, table_item\<lparr>item_type := RASTER_DATA\<rparr>]
     (str ''ws'') (str ''ws_datastore'') None None []) \<and>
   failed_items (snd (process_data_items sample_env sample_processor [raster_item, table_item]
     (str ''ws'') (str ''ws_datastore'') None None [])) = [str ''dem''] \<and>
   failed_items (snd (process_data_items sample_env sample_processor
     [vector_item, table_item\<lparr>item_type := RASTER_DATA\<rparr>]
     (str ''ws'') (str ''ws_datastore'') None None [])) = [str ''parcels'']"
  by (simp add: batch_defs batch_item_defs)

end
